theory Spec2Isabelle
  imports Main
begin

section \<open>JavaScript values\<close>

text \<open>
  Request bodies, option objects and the controller's JSON answers are JavaScript values.
  Numbers are modelled as integers (the values the orchestration layer handles are counts,
  megabit rates and byte limits). An object is an association list in insertion order.
\<close>

datatype jsval =
    JUndefined
  | JNull
  | JBool bool
  | JNum int
  | JStr string
  | JArr "jsval list"
  | JObj "(string \<times> jsval) list"

type_synonym error = string

text \<open>Truthiness, as used by \<^verbatim>\<open>||\<close>, \<^verbatim>\<open>&&\<close>, \<^verbatim>\<open>!\<close> and \<^verbatim>\<open>if\<close>.\<close>

fun truthy :: "jsval \<Rightarrow> bool" where
  "truthy JUndefined = False"
| "truthy JNull = False"
| "truthy (JBool b) = b"
| "truthy (JNum n) = (n \<noteq> 0)"
| "truthy (JStr s) = (s \<noteq> [])"
| "truthy (JArr xs) = True"
| "truthy (JObj kvs) = True"

definition js_or :: "jsval \<Rightarrow> jsval \<Rightarrow> jsval" where
  "js_or a b = (if truthy a then a else b)"

definition obj_get :: "(string \<times> jsval) list \<Rightarrow> string \<Rightarrow> jsval" where
  "obj_get kvs k = (case map_of kvs k of Some v \<Rightarrow> v | None \<Rightarrow> JUndefined)"

text \<open>Assignment of a property: an existing key keeps its place, a new key goes last.\<close>

fun obj_set :: "(string \<times> jsval) list \<Rightarrow> string \<Rightarrow> jsval \<Rightarrow> (string \<times> jsval) list" where
  "obj_set [] k v = [(k, v)]"
| "obj_set (p # ps) k v = (if fst p = k then (k, v) # ps else p # obj_set ps k v)"

text \<open>\<^verbatim>\<open>Map.prototype.set\<close>, with the same rule for the order of the keys.\<close>

fun map_set :: "('k \<times> 'v) list \<Rightarrow> 'k \<Rightarrow> 'v \<Rightarrow> ('k \<times> 'v) list" where
  "map_set [] k v = [(k, v)]"
| "map_set (p # ps) k v = (if fst p = k then (k, v) # ps else p # map_set ps k v)"

text \<open>The spread \<^verbatim>\<open>{ ...base, ...opts }\<close>.\<close>

definition obj_spread :: "(string \<times> jsval) list \<Rightarrow> (string \<times> jsval) list \<Rightarrow> (string \<times> jsval) list" where
  "obj_spread base opts = foldl (\<lambda>acc kv. obj_set acc (fst kv) (snd kv)) base opts"

text \<open>
  Reading a property \<^verbatim>\<open>v.k\<close> or \<^verbatim>\<open>v['k']\<close>, for the keys the program reads (plain data
  keys such as \<^verbatim>\<open>name\<close> and \<^verbatim>\<open>.id\<close>, never \<^verbatim>\<open>length\<close> or an index): it throws a TypeError
  on \<^verbatim>\<open>undefined\<close> and \<^verbatim>\<open>null\<close>, and is \<^verbatim>\<open>undefined\<close> on every primitive and array.
\<close>

fun js_prop :: "jsval \<Rightarrow> string \<Rightarrow> error + jsval" where
  "js_prop JUndefined k = Inl (''Cannot read properties of undefined (reading '' @ [CHR 0x27] @ k @ [CHR 0x27] @ '')'')"
| "js_prop JNull k = Inl (''Cannot read properties of null (reading '' @ [CHR 0x27] @ k @ [CHR 0x27] @ '')'')"
| "js_prop (JObj kvs) k = Inr (obj_get kvs k)"
| "js_prop v k = Inr JUndefined"

text \<open>Decimal notation of a number, for template strings.\<close>

fun show_nat :: "nat \<Rightarrow> string" where
  "show_nat n = (if n < 10 then [''0123456789'' ! n] else show_nat (n div 10) @ [''0123456789'' ! (n mod 10)])"

declare show_nat.simps [simp del]

definition show_int :: "int \<Rightarrow> string" where
  "show_int i = (if i < 0 then CHR ''-'' # show_nat (nat (- i)) else show_nat (nat i))"

fun join_commas :: "string list \<Rightarrow> string" where
  "join_commas [] = []"
| "join_commas [s] = s"
| "join_commas (s # t # ss) = s @ '','' @ join_commas (t # ss)"

text \<open>Conversion to a string, as a template literal \<^verbatim>\<open>`${v}`\<close> does it.\<close>

fun js_to_string :: "jsval \<Rightarrow> string" where
  "js_to_string JUndefined = ''undefined''"
| "js_to_string JNull = ''null''"
| "js_to_string (JBool b) = (if b then ''true'' else ''false'')"
| "js_to_string (JNum n) = show_int n"
| "js_to_string (JStr s) = s"
| "js_to_string (JArr xs) =
     join_commas (map (\<lambda>x. if x = JUndefined \<or> x = JNull then [] else js_to_string x) xs)"
| "js_to_string (JObj kvs) = ''[object Object]''"

text \<open>
  \<^verbatim>\<open>xs.find((u) => u.name === name)\<close> on the elements of an array: the first element
  whose \<^verbatim>\<open>name\<close> is that string, \<^verbatim>\<open>undefined\<close> when there is none, a TypeError when
  an element met on the way is \<^verbatim>\<open>null\<close> or \<^verbatim>\<open>undefined\<close>.
\<close>

fun find_named :: "jsval list \<Rightarrow> string \<Rightarrow> error + jsval" where
  "find_named [] name = Inr JUndefined"
| "find_named (u # us) name =
     (case js_prop u ''name'' of
        Inl e \<Rightarrow> Inl e
      | Inr n \<Rightarrow> if n = JStr name then Inr u else find_named us name)"

text \<open>
  \<^verbatim>\<open>v.find(...)\<close> where \<open>v\<close> is the variable called \<open>var\<close> in the source: only an array has
  the method.
\<close>

fun js_find_named :: "string \<Rightarrow> jsval \<Rightarrow> string \<Rightarrow> error + jsval" where
  "js_find_named var (JArr xs) name = find_named xs name"
| "js_find_named var JUndefined name = Inl ''Cannot read properties of undefined (reading 'find')''"
| "js_find_named var JNull name = Inl ''Cannot read properties of null (reading 'find')''"
| "js_find_named var v name = Inl (var @ ''.find is not a function'')"

section \<open>HTTP requests and the environment\<close>

record http_request =
  req_method :: string
  req_url :: string
  req_username :: string
  req_password :: string
  req_timeout :: nat
  req_data :: "jsval option"

record http_response =
  resp_status :: nat
  resp_data :: jsval


text \<open>
  Everything outside the program is a parameter of the model, so that the theorems hold
  whatever it does:
  \<^item> \<open>net\<close> is the network and the controllers behind it (the \<^verbatim>\<open>axios\<close> call): given the
    requests sent so far and a new request, either the message of the error thrown
    (timeout, refused connection, non-2xx status) or the response;
  \<^item> \<open>db_fault\<close> tells whether the \<open>n\<close>-th query sent to the database is rejected, and
    with which message;
  \<^item> \<open>random_hex\<close> is \<^verbatim>\<open>crypto.randomBytes(n).toString('hex')\<close> at the \<open>k\<close>-th draw;
  \<^item> \<open>thirty_days_later\<close> is the calendar of the local time zone: the time that
    \<^verbatim>\<open>setDate(getDate() + 30)\<close> makes of a given time (thirty days of 24 hours, give or
    take the changes of daylight saving time in between).
\<close>

record site_row =
  s_id :: nat
  s_site_name :: string
  s_location :: string
  s_site_type :: string
  s_router_ip :: string
  s_router_port :: "nat option"
  s_router_user :: string
  s_router_pass :: string
  s_api_key :: string
  s_bandwidth :: "int option"
  s_max_users :: "int option"
  s_parent_site_id :: "nat option"
  s_status :: string
  s_last_heartbeat :: "int option"
  s_created_at :: int

record mirror_row =
  ru_site_id :: nat
  ru_username :: string
  ru_password :: string
  ru_bandwidth_limit :: jsval
  ru_created_at :: int

record api_log_row =
  al_site_id :: nat
  al_endpoint :: string
  al_method :: string
  al_status_code :: nat
  al_created_at :: int

record token_row =
  tk_site_id :: nat
  tk_token :: string
  tk_permissions :: "string list"
  tk_expires_at :: int
  tk_created_at :: int

text \<open>
  The table \<^verbatim>\<open>sites\<close> is created outside the sources at hand, so the value its \<^verbatim>\<open>id\<close>
  column gives to a new row (\<open>new_site_id\<close>) is a parameter. So is what the database does
  with the \<^verbatim>\<open>UPDATE remote_users\<close> statement that \<^verbatim>\<open>updateRemoteUser\<close> assembles from the
  keys of its argument (\<open>mirror_update\<close>): an error message or the new rows.
\<close>

record env =
  net :: "http_request list \<Rightarrow> http_request \<Rightarrow> error + http_response"
  db_fault :: "nat \<Rightarrow> error option"
  random_hex :: "nat \<Rightarrow> nat \<Rightarrow> string"
  thirty_days_later :: "int \<Rightarrow> int"
  new_site_id :: "site_row list \<Rightarrow> nat"
  mirror_update :: "(string \<times> jsval) list \<Rightarrow> nat \<Rightarrow> string \<Rightarrow> mirror_row list \<Rightarrow> error + mirror_row list"

section \<open>The multi-site manager\<close>

record registered_site =
  rs_id :: nat
  rs_site_name :: string
  rs_api_key :: string
  rs_site_type :: string

record cached_site =
  cs_site :: registered_site
  cs_routerIP :: string
  cs_routerPort :: "nat option"
  cs_routerUser :: string
  cs_routerPass :: string

text \<open>
  The outcome of a connection test. \<open>conn_time\<close> is the \<^verbatim>\<open>uptime\<close> stamp of a successful
  probe of a remote site and the \<^verbatim>\<open>timestamp\<close> of a failed one.
\<close>

record conn_status =
  connected :: bool
  conn_identity :: jsval
  conn_type :: "string option"
  conn_error :: "string option"
  conn_time :: "int option"

datatype event =
    SiteRegistered registered_site
  | SiteHeartbeat nat conn_status

text \<open>
  The state: the four tables, the manager's \<^verbatim>\<open>sites\<close> map, the events emitted, the
  requests sent to the network, and how many queries and random draws have been made.
  Logger calls are left out. An operation reads the clock (\<^verbatim>\<open>NOW()\<close>, \<^verbatim>\<open>new Date()\<close>) as
  its argument \<open>now\<close>, in milliseconds.
\<close>

record state =
  sites :: "site_row list"
  remote_users :: "mirror_row list"
  site_api_logs :: "api_log_row list"
  site_management_tokens :: "token_row list"
  sites_cache :: "(nat \<times> cached_site) list"
  events :: "event list"
  calls :: "http_request list"
  queries :: nat
  draws :: nat

text \<open>Sending one query: the database may reject it.\<close>

definition db_query :: "env \<Rightarrow> state \<Rightarrow> error option \<times> state" where
  "db_query env st = (db_fault env (queries st), st\<lparr>queries := Suc (queries st)\<rparr>)"

text \<open>Sending one request.\<close>

definition http_call :: "env \<Rightarrow> state \<Rightarrow> http_request \<Rightarrow> (error + http_response) \<times> state" where
  "http_call env st rq = (net env (calls st) rq, st\<lparr>calls := calls st @ [rq]\<rparr>)"

subsection \<open>Site registration\<close>

record site_data =
  siteName :: string
  location :: string
  siteType :: string
  routerIP :: string
  routerPort :: "nat option"
  routerUser :: string
  routerPass :: string
  apiKey :: "string option"
  bandwidth :: "int option"
  maxUsers :: "int option"
  parentSiteId :: "nat option"

definition toUpperCase :: "string \<Rightarrow> string" where
  "toUpperCase s =
     map (\<lambda>c. case map_of (zip ''abcdefghijklmnopqrstuvwxyz'' ''ABCDEFGHIJKLMNOPQRSTUVWXYZ'') c of
                 Some d \<Rightarrow> d | None \<Rightarrow> c) s"

definition generateSiteAPIKey :: "env \<Rightarrow> state \<Rightarrow> string \<times> state" where
  "generateSiteAPIKey env st =
     (''SITE-'' @ toUpperCase (random_hex env (draws st) 24), st\<lparr>draws := Suc (draws st)\<rparr>)"

definition registerSite :: "env \<Rightarrow> int \<Rightarrow> state \<Rightarrow> site_data \<Rightarrow> (error + registered_site) \<times> state" where
  "registerSite env now st siteData =
     (let (generatedApiKey, st1) =
            (case apiKey siteData of
               Some k \<Rightarrow> if k \<noteq> [] then (k, st) else generateSiteAPIKey env st
             | None \<Rightarrow> generateSiteAPIKey env st)
      in case db_query env st1 of
           (Some e, st2) \<Rightarrow> (Inl e, st2)
         | (None, st2) \<Rightarrow>
             let row = \<lparr> s_id = new_site_id env (sites st2),
                         s_site_name = siteName siteData,
                         s_location = location siteData,
                         s_site_type = siteType siteData,
                         s_router_ip = routerIP siteData,
                         s_router_port = routerPort siteData,
                         s_router_user = routerUser siteData,
                         s_router_pass = routerPass siteData,
                         s_api_key = generatedApiKey,
                         s_bandwidth = bandwidth siteData,
                         s_max_users = maxUsers siteData,
                         s_parent_site_id =
                           (case parentSiteId siteData of
                              Some p \<Rightarrow> if p \<noteq> 0 then Some p else None
                            | None \<Rightarrow> None),
                         s_status = ''active'',
                         s_last_heartbeat = None,
                         s_created_at = now \<rparr>;
                 site = \<lparr> rs_id = s_id row, rs_site_name = s_site_name row,
                          rs_api_key = s_api_key row, rs_site_type = s_site_type row \<rparr>;
                 st3 = st2\<lparr> sites := sites st2 @ [row] \<rparr>;
                 st4 = st3\<lparr> sites_cache := map_set (sites_cache st3) (rs_id site)
                          \<lparr> cs_site = site, cs_routerIP = routerIP siteData,
                            cs_routerPort = routerPort siteData,
                            cs_routerUser = routerUser siteData,
                            cs_routerPass = routerPass siteData \<rparr> \<rparr>;
                 st5 = st4\<lparr> events := events st4 @ [SiteRegistered site] \<rparr>
             in (Inr site, st5))"

subsection \<open>Connection test and heartbeat\<close>

text \<open>The address of a site's control plane: \<^verbatim>\<open>http://${ip}:${port || 8728}/rest\<close>.\<close>

definition site_base_url :: "site_row \<Rightarrow> string" where
  "site_base_url site =
     ''http://'' @ s_router_ip site @ '':'' @
     show_nat (case s_router_port site of Some p \<Rightarrow> if p \<noteq> 0 then p else 8728 | None \<Rightarrow> 8728) @
     ''/rest''"

text \<open>\<^verbatim>\<open>response.data[0]?.name\<close>.\<close>

fun js_first :: "jsval \<Rightarrow> error + jsval" where
  "js_first JUndefined = Inl ''Cannot read properties of undefined (reading '0')''"
| "js_first JNull = Inl ''Cannot read properties of null (reading '0')''"
| "js_first (JArr xs) = Inr (case xs of [] \<Rightarrow> JUndefined | x # _ \<Rightarrow> x)"
| "js_first (JStr s) = Inr (case s of [] \<Rightarrow> JUndefined | c # _ \<Rightarrow> JStr [c])"
| "js_first (JObj kvs) = Inr (obj_get kvs ''0'')"
| "js_first v = Inr JUndefined"

definition identity_name :: "jsval \<Rightarrow> error + jsval" where
  "identity_name d =
     (case js_first d of
        Inl e \<Rightarrow> Inl e
      | Inr v \<Rightarrow> if v = JUndefined \<or> v = JNull then Inr JUndefined else js_prop v ''name'')"

definition not_connected :: "string \<Rightarrow> int \<Rightarrow> conn_status" where
  "not_connected msg now =
     \<lparr> connected = False, conn_identity = JUndefined, conn_type = None,
       conn_error = Some msg, conn_time = Some now \<rparr>"

definition testSiteConnection :: "env \<Rightarrow> int \<Rightarrow> state \<Rightarrow> nat \<Rightarrow> conn_status \<times> state" where
  "testSiteConnection env now st siteId =
     (case db_query env st of
        (Some e, st1) \<Rightarrow> (not_connected e now, st1)
      | (None, st1) \<Rightarrow>
          (case filter (\<lambda>s. s_id s = siteId) (sites st1) of
             [] \<Rightarrow> (\<lparr> connected = False, conn_identity = JUndefined, conn_type = None,
                      conn_error = Some ''Site not found'', conn_time = None \<rparr>, st1)
           | siteData # _ \<Rightarrow>
               if s_site_type siteData = ''remote'' then
                 (case http_call env st1
                         \<lparr> req_method = ''GET'',
                           req_url = site_base_url siteData @ ''/system/identity'',
                           req_username = s_router_user siteData,
                           req_password = s_router_pass siteData,
                           req_timeout = 5000, req_data = None \<rparr> of
                    (Inl e, st2) \<Rightarrow> (not_connected e now, st2)
                  | (Inr response, st2) \<Rightarrow>
                      (case identity_name (resp_data response) of
                         Inl e \<Rightarrow> (not_connected e now, st2)
                       | Inr nm \<Rightarrow>
                           (\<lparr> connected = True, conn_identity = nm, conn_type = None,
                              conn_error = None, conn_time = Some now \<rparr>, st2)))
               else (\<lparr> connected = True, conn_identity = JUndefined, conn_type = Some ''local'',
                       conn_error = None, conn_time = None \<rparr>, st1)))"

text \<open>
  One tick of the interval that \<^verbatim>\<open>startSiteHeartbeat\<close> installs: probe, store the status,
  emit. A rejected \<^verbatim>\<open>UPDATE\<close> ends the tick before the event (the callback's promise
  rejects).
\<close>

definition heartbeat_tick :: "env \<Rightarrow> int \<Rightarrow> state \<Rightarrow> nat \<Rightarrow> error option \<times> state" where
  "heartbeat_tick env now st siteId =
     (let (status, st1) = testSiteConnection env now st siteId
      in case db_query env st1 of
           (Some e, st2) \<Rightarrow> (Some e, st2)
         | (None, st2) \<Rightarrow>
             let st3 = st2\<lparr> sites :=
                         map (\<lambda>s. if s_id s = siteId
                                   then s\<lparr> s_last_heartbeat := Some now,
                                           s_status := (if connected status then ''online'' else ''offline'') \<rparr>
                                   else s) (sites st2) \<rparr>;
                 st4 = st3\<lparr> events := events st3 @ [SiteHeartbeat siteId status] \<rparr>
             in (None, st4))"

text \<open>
  The ticks of one site's heartbeat at the given times, one after the other. A tick whose
  \<^verbatim>\<open>UPDATE\<close> is rejected leaves the promise of the interval's callback rejected with nothing
  to handle it (the sources install no handler), which ends the Node process: the run
  stops there.
\<close>

fun heartbeat_run :: "env \<Rightarrow> state \<Rightarrow> nat \<Rightarrow> int list \<Rightarrow> state" where
  "heartbeat_run env st siteId [] = st"
| "heartbeat_run env st siteId (now # later) =
     (case heartbeat_tick env now st siteId of
        (None, st1) \<Rightarrow> heartbeat_run env st1 siteId later
      | (Some e, st1) \<Rightarrow> st1)"

subsection \<open>Remote API client\<close>

text \<open>A rejected insertion into the audit trail is only logged as a warning.\<close>

definition logSiteAPICall :: "env \<Rightarrow> int \<Rightarrow> state \<Rightarrow> nat \<Rightarrow> string \<Rightarrow> string \<Rightarrow> nat \<Rightarrow> state" where
  "logSiteAPICall env now st siteId endpoint method statusCode =
     (case db_query env st of
        (Some e, st1) \<Rightarrow> st1
      | (None, st1) \<Rightarrow>
          st1\<lparr> site_api_logs := site_api_logs st1 @
                 [\<lparr> al_site_id = siteId, al_endpoint = endpoint, al_method = method,
                    al_status_code = statusCode, al_created_at = now \<rparr>] \<rparr>)"

definition callSiteAPI ::
  "env \<Rightarrow> int \<Rightarrow> state \<Rightarrow> nat \<Rightarrow> string \<Rightarrow> string \<Rightarrow> jsval \<Rightarrow> (error + jsval) \<times> state" where
  "callSiteAPI env now st siteId endpoint method data =
     (case db_query env st of
        (Some e, st1) \<Rightarrow> (Inl e, st1)
      | (None, st1) \<Rightarrow>
          (case filter (\<lambda>s. s_id s = siteId) (sites st1) of
             [] \<Rightarrow> (Inl ''Site not found'', st1)
           | site # _ \<Rightarrow>
               if s_site_type site \<noteq> ''remote'' then (Inl ''Can only call API on remote sites'', st1)
               else
                 (case http_call env st1
                         \<lparr> req_method = method,
                           req_url = site_base_url site @ endpoint,
                           req_username = s_router_user site,
                           req_password = s_router_pass site,
                           req_timeout = 10000,
                           req_data = (if truthy data \<and> (method = ''POST'' \<or> method = ''PUT'')
                                       then Some data else None) \<rparr> of
                    (Inl e, st2) \<Rightarrow> (Inl e, st2)
                  | (Inr response, st2) \<Rightarrow>
                      (Inr (resp_data response),
                       logSiteAPICall env now st2 siteId endpoint method (resp_status response)))))"

subsection \<open>Users on a remote site\<close>

text \<open>The body that \<^verbatim>\<open>createRemoteUser\<close> posts.\<close>

definition remote_user_payload :: "string \<Rightarrow> string \<Rightarrow> (string \<times> jsval) list \<Rightarrow> jsval" where
  "remote_user_payload username password options =
     JObj (obj_spread
            [(''name'', JStr username),
             (''password'', JStr password),
             (''limit-bytes-out'', js_or (obj_get options ''bandwidthLimit'') (JNum 0)),
             (''limit-uptime'', js_or (obj_get options ''sessionTimeout'') (JNum 0))]
            options)"

definition createRemoteUser ::
  "env \<Rightarrow> int \<Rightarrow> state \<Rightarrow> nat \<Rightarrow> string \<Rightarrow> string \<Rightarrow> (string \<times> jsval) list \<Rightarrow> (error + jsval) \<times> state" where
  "createRemoteUser env now st siteId username password options =
     (let payload = remote_user_payload username password options
      in case callSiteAPI env now st siteId ''/ip/hotspot/user'' ''POST'' payload of
           (Inl e, st1) \<Rightarrow> (Inl e, st1)
         | (Inr result, st1) \<Rightarrow>
             (case db_query env st1 of
                (Some e, st2) \<Rightarrow> (Inl e, st2)
              | (None, st2) \<Rightarrow>
                  (Inr (JObj [(''success'', JBool True), (''user'', result)]),
                   st2\<lparr> remote_users := remote_users st2 @
                          [\<lparr> ru_site_id = siteId, ru_username = username, ru_password = password,
                             ru_bandwidth_limit = js_or (obj_get options ''bandwidthLimit'') (JNum 0),
                             ru_created_at = now \<rparr>] \<rparr>)))"


definition deleteRemoteUser ::
  "env \<Rightarrow> int \<Rightarrow> state \<Rightarrow> nat \<Rightarrow> string \<Rightarrow> (error + jsval) \<times> state" where
  "deleteRemoteUser env now st siteId username =
     (case callSiteAPI env now st siteId ''/ip/hotspot/user'' ''GET'' JNull of
        (Inl e, st1) \<Rightarrow> (Inl e, st1)
      | (Inr users, st1) \<Rightarrow>
          (case js_find_named ''users'' users username of
             Inl e \<Rightarrow> (Inl e, st1)
           | Inr user \<Rightarrow>
               if \<not> truthy user then (Inl (''User not found on remote site: '' @ username), st1)
               else
                 (case js_prop user ''.id'' of
                    Inl e \<Rightarrow> (Inl e, st1)
                  | Inr uid \<Rightarrow>
                      (case callSiteAPI env now st1 siteId
                              (''/ip/hotspot/user/'' @ js_to_string uid) ''DELETE'' JNull of
                         (Inl e, st2) \<Rightarrow> (Inl e, st2)
                       | (Inr _, st2) \<Rightarrow>
                           (case db_query env st2 of
                              (Some e, st3) \<Rightarrow> (Inl e, st3)
                            | (None, st3) \<Rightarrow>
                                (Inr (JObj [(''success'', JBool True)]),
                                 st3\<lparr> remote_users :=
                                        filter (\<lambda>r. \<not> (ru_site_id r = siteId \<and> ru_username r = username))
                                          (remote_users st3) \<rparr>))))))"

subsection \<open>Bandwidth queues on a remote site\<close>

text \<open>The pair of limits \<^verbatim>\<open>${bandwidth}M/${bandwidth}M\<close> and its half, rounded down.\<close>

definition queue_limits :: "int \<Rightarrow> (string \<times> jsval) list" where
  "queue_limits bw =
     [(''max-limit'', JStr (show_int bw @ ''M/'' @ show_int bw @ ''M'')),
      (''limit-at'', JStr (show_int (bw div 2) @ ''M/'' @ show_int (bw div 2) @ ''M''))]"


definition updateRemoteQueueBandwidth ::
  "env \<Rightarrow> int \<Rightarrow> state \<Rightarrow> nat \<Rightarrow> string \<Rightarrow> int \<Rightarrow> (error + jsval) \<times> state" where
  "updateRemoteQueueBandwidth env now st siteId username bw =
     (case callSiteAPI env now st siteId ''/queue/simple'' ''GET'' JNull of
        (Inl e, st1) \<Rightarrow> (Inl e, st1)
      | (Inr queues, st1) \<Rightarrow>
          (case js_find_named ''queues'' queues (''queue-'' @ username) of
             Inl e \<Rightarrow> (Inl e, st1)
           | Inr queue \<Rightarrow>
               if \<not> truthy queue then (Inl (''Queue not found for user: '' @ username), st1)
               else
                 (case js_prop queue ''.id'' of
                    Inl e \<Rightarrow> (Inl e, st1)
                  | Inr qid \<Rightarrow>
                      (case callSiteAPI env now st1 siteId
                              (''/queue/simple/'' @ js_to_string qid) ''PUT'' (JObj (queue_limits bw)) of
                         (Inl e, st2) \<Rightarrow> (Inl e, st2)
                       | (Inr result, st2) \<Rightarrow>
                           (Inr (JObj [(''success'', JBool True), (''queue'', result)]), st2)))))"

subsection \<open>Central management: the fan-outs\<close>

record fanout_entry =
  e_siteId :: nat
  e_success :: bool
  e_result :: "jsval option"
  e_error :: "string option"

text \<open>The entry that the body of a fan-out loop pushes for one site.\<close>

definition create_entry :: "nat \<Rightarrow> error + jsval \<Rightarrow> fanout_entry" where
  "create_entry siteId r =
     (case r of
        Inr result \<Rightarrow> \<lparr> e_siteId = siteId, e_success = True, e_result = Some result, e_error = None \<rparr>
      | Inl msg \<Rightarrow> \<lparr> e_siteId = siteId, e_success = False, e_result = None, e_error = Some msg \<rparr>)"

definition bandwidth_entry :: "nat \<Rightarrow> error + jsval \<Rightarrow> fanout_entry" where
  "bandwidth_entry siteId r =
     (case r of
        Inr result \<Rightarrow> \<lparr> e_siteId = siteId, e_success = True, e_result = None, e_error = None \<rparr>
      | Inl msg \<Rightarrow> \<lparr> e_siteId = siteId, e_success = False, e_result = None, e_error = Some msg \<rparr>)"

text \<open>
  The \<^verbatim>\<open>for (const siteId of siteIds)\<close> loops, with the array \<^verbatim>\<open>results\<close> as accumulator.
  The \<^verbatim>\<open>try\<close> inside the loop body catches whatever the per-site operation throws, so
  nothing is left for the \<^verbatim>\<open>try\<close> around the loop to catch and rethrow: a fan-out over a
  list of site-ids always returns its report.
\<close>

fun createUser_loop ::
  "env \<Rightarrow> int \<Rightarrow> string \<Rightarrow> string \<Rightarrow> (string \<times> jsval) list \<Rightarrow> nat list \<Rightarrow> fanout_entry list \<Rightarrow> state
     \<Rightarrow> fanout_entry list \<times> state" where
  "createUser_loop env now username password options [] results st = (results, st)"
| "createUser_loop env now username password options (siteId # rest) results st =
     (let (r, st1) = createRemoteUser env now st siteId username password options
      in createUser_loop env now username password options rest (results @ [create_entry siteId r]) st1)"

fun updateBandwidth_loop ::
  "env \<Rightarrow> int \<Rightarrow> string \<Rightarrow> int \<Rightarrow> nat list \<Rightarrow> fanout_entry list \<Rightarrow> state
     \<Rightarrow> fanout_entry list \<times> state" where
  "updateBandwidth_loop env now username bw [] results st = (results, st)"
| "updateBandwidth_loop env now username bw (siteId # rest) results st =
     (let (r, st1) = updateRemoteQueueBandwidth env now st siteId username bw
      in updateBandwidth_loop env now username bw rest (results @ [bandwidth_entry siteId r]) st1)"

record create_report =
  cr_username :: string
  cr_results :: "fanout_entry list"

record bandwidth_report =
  br_username :: string
  br_bandwidth :: int
  br_results :: "fanout_entry list"

definition createUserAcrossMultipleSites ::
  "env \<Rightarrow> int \<Rightarrow> state \<Rightarrow> string \<Rightarrow> string \<Rightarrow> nat list \<Rightarrow> (string \<times> jsval) list \<Rightarrow> create_report \<times> state" where
  "createUserAcrossMultipleSites env now st username password siteIds options =
     (let (results, st1) = createUser_loop env now username password options siteIds [] st
      in (\<lparr> cr_username = username, cr_results = results \<rparr>, st1))"

definition updateBandwidthAcrossMultipleSites ::
  "env \<Rightarrow> int \<Rightarrow> state \<Rightarrow> string \<Rightarrow> int \<Rightarrow> nat list \<Rightarrow> bandwidth_report \<times> state" where
  "updateBandwidthAcrossMultipleSites env now st username bw siteIds =
     (let (results, st1) = updateBandwidth_loop env now username bw siteIds [] st
      in (\<lparr> br_username = username, br_bandwidth = bw, br_results = results \<rparr>, st1))"

text \<open>
  The selection of the sync has no \<^verbatim>\<open>ORDER BY\<close>; the model hands the selected rows over in
  the order of the table, which the theorems about the sync do not rely on.
\<close>

definition syncUserAcrossAllSites ::
  "env \<Rightarrow> int \<Rightarrow> state \<Rightarrow> string \<Rightarrow> string \<Rightarrow> (string \<times> jsval) list \<Rightarrow> (error + create_report) \<times> state" where
  "syncUserAcrossAllSites env now st username password options =
     (case db_query env st of
        (Some e, st1) \<Rightarrow> (Inl e, st1)
      | (None, st1) \<Rightarrow>
          (let siteIds = map s_id (filter (\<lambda>s. s_status s = ''active'') (sites st1));
               (report, st2) = createUserAcrossMultipleSites env now st1 username password siteIds options
           in (Inr report, st2)))"

subsection \<open>Management tokens\<close>

record issued_token =
  it_token :: string
  it_expires_at :: int

definition generateManagementToken ::
  "env \<Rightarrow> int \<Rightarrow> state \<Rightarrow> nat \<Rightarrow> string list \<Rightarrow> (error + issued_token) \<times> state" where
  "generateManagementToken env now st siteId permissions =
     (let token = random_hex env (draws st) 32;
          st1 = st\<lparr> draws := Suc (draws st) \<rparr>;
          expiresAt = thirty_days_later env now
      in case db_query env st1 of
           (Some e, st2) \<Rightarrow> (Inl e, st2)
         | (None, st2) \<Rightarrow>
             (Inr \<lparr> it_token = token, it_expires_at = expiresAt \<rparr>,
              st2\<lparr> site_management_tokens := site_management_tokens st2 @
                     [\<lparr> tk_site_id = siteId, tk_token = token, tk_permissions = permissions,
                        tk_expires_at = expiresAt, tk_created_at = now \<rparr>] \<rparr>))"

definition verifyManagementToken :: "env \<Rightarrow> int \<Rightarrow> state \<Rightarrow> nat \<Rightarrow> string \<Rightarrow> bool \<times> state" where
  "verifyManagementToken env now st siteId token =
     (case db_query env st of
        (Some e, st1) \<Rightarrow> (False, st1)
      | (None, st1) \<Rightarrow>
          (0 < length (filter (\<lambda>t. tk_site_id t = siteId \<and> tk_token t = token \<and> tk_expires_at t > now)
                         (site_management_tokens st1)), st1))"


section \<open>The device client (Mikrotik manager)\<close>

text \<open>
  One instance talks to one controller. Its cache holds the last answers of the three
  list calls and a single time stamp \<^verbatim>\<open>lastUpdate\<close>; \<^verbatim>\<open>null\<close> stands for no answer.
\<close>

record mikrotik =
  mk_baseURL :: string
  mk_user :: string
  mk_pass :: string
  mk_timeout :: nat
  cache_users :: jsval
  cache_queues :: jsval
  cache_aps :: jsval
  cache_lastUpdate :: int
  mk_calls :: "http_request list"

definition clearCache :: "mikrotik \<Rightarrow> mikrotik" where
  "clearCache m = m\<lparr> cache_users := JNull, cache_queues := JNull, cache_aps := JNull, cache_lastUpdate := 0 \<rparr>"

definition mk_http ::
  "env \<Rightarrow> mikrotik \<Rightarrow> string \<Rightarrow> string \<Rightarrow> jsval option \<Rightarrow> (error + http_response) \<times> mikrotik" where
  "mk_http env m method path body =
     (let rq = \<lparr> req_method = method, req_url = mk_baseURL m @ path,
                 req_username = mk_user m, req_password = mk_pass m,
                 req_timeout = mk_timeout m, req_data = body \<rparr>
      in (net env (mk_calls m) rq, m\<lparr> mk_calls := mk_calls m @ [rq] \<rparr>))"

definition cache_ttl :: int where
  "cache_ttl = 5 * 60 * 1000"

definition getHotspotUsers :: "env \<Rightarrow> int \<Rightarrow> mikrotik \<Rightarrow> jsval \<times> mikrotik" where
  "getHotspotUsers env now m =
     (if truthy (cache_users m) \<and> now - cache_lastUpdate m < cache_ttl then (cache_users m, m)
      else
        (case mk_http env m ''GET'' ''/ip/hotspot/user'' None of
           (Inl e, m1) \<Rightarrow> (JArr [], m1)
         | (Inr response, m1) \<Rightarrow>
             (resp_data response,
              m1\<lparr> cache_users := resp_data response, cache_lastUpdate := now \<rparr>)))"

definition getQueues :: "env \<Rightarrow> int \<Rightarrow> mikrotik \<Rightarrow> jsval \<times> mikrotik" where
  "getQueues env now m =
     (if truthy (cache_queues m) \<and> now - cache_lastUpdate m < cache_ttl then (cache_queues m, m)
      else
        (case mk_http env m ''GET'' ''/queue/simple'' None of
           (Inl e, m1) \<Rightarrow> (JArr [], m1)
         | (Inr response, m1) \<Rightarrow>
             (resp_data response, m1\<lparr> cache_queues := resp_data response \<rparr>)))"

text \<open>
  The summary of one wireless interface. Reading the first field of \<^verbatim>\<open>null\<close> throws; once
  that read has succeeded the other reads cannot throw.
\<close>

definition field_of :: "jsval \<Rightarrow> string \<Rightarrow> jsval" where
  "field_of v k = (case js_prop v k of Inr x \<Rightarrow> x | Inl e \<Rightarrow> JUndefined)"

definition ap_summary :: "jsval \<Rightarrow> error + jsval" where
  "ap_summary ap =
     (case js_prop ap ''.id'' of
        Inl e \<Rightarrow> Inl e
      | Inr i \<Rightarrow>
          Inr (JObj [(''id'', i),
                     (''name'', field_of ap ''name''),
                     (''ssid'', field_of ap ''ssid''),
                     (''frequency'', field_of ap ''frequency''),
                     (''band'', field_of ap ''band''),
                     (''mode'', field_of ap ''mode''),
                     (''running'', field_of ap ''running''),
                     (''disabled'', field_of ap ''disabled'')]))"

fun ap_summaries :: "jsval list \<Rightarrow> error + jsval list" where
  "ap_summaries [] = Inr []"
| "ap_summaries (ap # aps) =
     (case ap_summary ap of
        Inl e \<Rightarrow> Inl e
      | Inr x \<Rightarrow> (case ap_summaries aps of Inl e \<Rightarrow> Inl e | Inr xs \<Rightarrow> Inr (x # xs)))"

definition getAccessPoints :: "env \<Rightarrow> int \<Rightarrow> mikrotik \<Rightarrow> jsval \<times> mikrotik" where
  "getAccessPoints env now m =
     (if truthy (cache_aps m) \<and> now - cache_lastUpdate m < cache_ttl then (cache_aps m, m)
      else
        (case mk_http env m ''GET'' ''/interface/wireless'' None of
           (Inl e, m1) \<Rightarrow> (JArr [], m1)
         | (Inr response, m1) \<Rightarrow>
             (case resp_data response of
                JArr aps \<Rightarrow>
                  (case ap_summaries aps of
                     Inl e \<Rightarrow> (JArr [], m1)
                   | Inr xs \<Rightarrow> (JArr xs, m1\<lparr> cache_aps := JArr xs \<rparr>))
              | _ \<Rightarrow> (JArr [], m1))))"

definition createHotspotUser ::
  "env \<Rightarrow> mikrotik \<Rightarrow> string \<Rightarrow> string \<Rightarrow> (string \<times> jsval) list \<Rightarrow> (error + jsval) \<times> mikrotik" where
  "createHotspotUser env m username password options =
     (let payload = obj_spread
            [(''name'', JStr username),
             (''password'', JStr password),
             (''limit-bytes-out'', js_or (obj_get options ''bandwidthLimit'') (JNum 0)),
             (''limit-uptime'', js_or (obj_get options ''sessionTimeout'') (JNum 0)),
             (''limit-bytes-in'', js_or (obj_get options ''uploadLimit'') (JNum 0))]
            options
      in case mk_http env m ''POST'' ''/ip/hotspot/user'' (Some (JObj payload)) of
           (Inl e, m1) \<Rightarrow> (Inl e, m1)
         | (Inr response, m1) \<Rightarrow>
             (Inr (JObj [(''success'', JBool True), (''user'', resp_data response)]),
              m1\<lparr> cache_users := JNull \<rparr>))"

definition updateHotspotUser ::
  "env \<Rightarrow> int \<Rightarrow> mikrotik \<Rightarrow> string \<Rightarrow> (string \<times> jsval) list \<Rightarrow> (error + jsval) \<times> mikrotik" where
  "updateHotspotUser env now m username updates =
     (let (users, m1) = getHotspotUsers env now m
      in case js_find_named ''users'' users username of
           Inl e \<Rightarrow> (Inl e, m1)
         | Inr user \<Rightarrow>
             if \<not> truthy user then (Inl (''User not found: '' @ username), m1)
             else
               (case js_prop user ''.id'' of
                  Inl e \<Rightarrow> (Inl e, m1)
                | Inr uid \<Rightarrow>
                    (case mk_http env m1 ''PUT'' (''/ip/hotspot/user/'' @ js_to_string uid)
                            (Some (JObj updates)) of
                       (Inl e, m2) \<Rightarrow> (Inl e, m2)
                     | (Inr response, m2) \<Rightarrow>
                         (Inr (JObj [(''success'', JBool True), (''user'', resp_data response)]),
                          m2\<lparr> cache_users := JNull \<rparr>))))"

definition deleteHotspotUser ::
  "env \<Rightarrow> int \<Rightarrow> mikrotik \<Rightarrow> string \<Rightarrow> (error + jsval) \<times> mikrotik" where
  "deleteHotspotUser env now m username =
     (let (users, m1) = getHotspotUsers env now m
      in case js_find_named ''users'' users username of
           Inl e \<Rightarrow> (Inl e, m1)
         | Inr user \<Rightarrow>
             if \<not> truthy user then (Inl (''User not found: '' @ username), m1)
             else
               (case js_prop user ''.id'' of
                  Inl e \<Rightarrow> (Inl e, m1)
                | Inr uid \<Rightarrow>
                    (case mk_http env m1 ''DELETE'' (''/ip/hotspot/user/'' @ js_to_string uid) None of
                       (Inl e, m2) \<Rightarrow> (Inl e, m2)
                     | (Inr response, m2) \<Rightarrow>
                         (Inr (JObj [(''success'', JBool True)]), m2\<lparr> cache_users := JNull \<rparr>))))"

definition createQueue ::
  "env \<Rightarrow> mikrotik \<Rightarrow> string \<Rightarrow> (string \<times> jsval) list \<Rightarrow> (error + jsval) \<times> mikrotik" where
  "createQueue env m username options =
     (let queue = obj_spread
            [(''name'', JStr (''queue-'' @ username)),
             (''target'', js_or (obj_get options ''target'') (JStr (username @ ''/32''))),
             (''max-limit'', js_or (obj_get options ''maxLimit'') (JStr ''10M/10M'')),
             (''limit-at'', js_or (obj_get options ''limitAt'') (JStr ''5M/5M'')),
             (''burst-limit'', js_or (obj_get options ''burstLimit'') (JStr ''15M/15M'')),
             (''burst-time'', js_or (obj_get options ''burstTime'') (JStr ''10s'')),
             (''comment'', js_or (obj_get options ''comment'') (JStr (''Queue for '' @ username)))]
            options
      in case mk_http env m ''POST'' ''/queue/simple'' (Some (JObj queue)) of
           (Inl e, m1) \<Rightarrow> (Inl e, m1)
         | (Inr response, m1) \<Rightarrow>
             (Inr (JObj [(''success'', JBool True), (''queue'', resp_data response)]),
              m1\<lparr> cache_queues := JNull \<rparr>))"

definition updateQueueBandwidth ::
  "env \<Rightarrow> int \<Rightarrow> mikrotik \<Rightarrow> string \<Rightarrow> (string \<times> jsval) list \<Rightarrow> (error + jsval) \<times> mikrotik" where
  "updateQueueBandwidth env now m username bw =
     (let (queues, m1) = getQueues env now m
      in case js_find_named ''queues'' queues (''queue-'' @ username) of
           Inl e \<Rightarrow> (Inl e, m1)
         | Inr queue \<Rightarrow>
             if \<not> truthy queue then (Inl (''Queue not found for user: '' @ username), m1)
             else
               (case js_prop queue ''.id'' of
                  Inl e \<Rightarrow> (Inl e, m1)
                | Inr qid \<Rightarrow>
                    (case mk_http env m1 ''PUT'' (''/queue/simple/'' @ js_to_string qid)
                            (Some (JObj
                               [(''max-limit'', js_or (obj_get bw ''maxLimit'') (JStr ''10M/10M'')),
                                (''limit-at'', js_or (obj_get bw ''limitAt'') (JStr ''5M/5M'')),
                                (''burst-limit'', js_or (obj_get bw ''burstLimit'') (JStr ''15M/15M''))])) of
                       (Inl e, m2) \<Rightarrow> (Inl e, m2)
                     | (Inr response, m2) \<Rightarrow>
                         (Inr (JObj [(''success'', JBool True)]), m2\<lparr> cache_queues := JNull \<rparr>))))"

definition deleteQueue ::
  "env \<Rightarrow> int \<Rightarrow> mikrotik \<Rightarrow> string \<Rightarrow> (error + jsval) \<times> mikrotik" where
  "deleteQueue env now m username =
     (let (queues, m1) = getQueues env now m
      in case js_find_named ''queues'' queues (''queue-'' @ username) of
           Inl e \<Rightarrow> (Inl e, m1)
         | Inr queue \<Rightarrow>
             if \<not> truthy queue then (Inl (''Queue not found for user: '' @ username), m1)
             else
               (case js_prop queue ''.id'' of
                  Inl e \<Rightarrow> (Inl e, m1)
                | Inr qid \<Rightarrow>
                    (case mk_http env m1 ''DELETE'' (''/queue/simple/'' @ js_to_string qid) None of
                       (Inl e, m2) \<Rightarrow> (Inl e, m2)
                     | (Inr response, m2) \<Rightarrow>
                         (Inr (JObj [(''success'', JBool True)]), m2\<lparr> cache_queues := JNull \<rparr>))))"


section \<open>Test doubles\<close>

text \<open>
  A network of controllers told apart by the user name of their credentials: the
  controller of \<open>down\<close> times out, the controller of \<open>strict\<close> refuses every write, every
  other one answers a listing with the user \<open>alice\<close> and her queue, and accepts writes.
\<close>

definition demo_net :: "http_request list \<Rightarrow> http_request \<Rightarrow> error + http_response" where
  "demo_net history rq =
     (if req_username rq = ''down'' then Inl ''timeout of 10000ms exceeded''
      else if req_method rq = ''GET'' then
        Inr \<lparr> resp_status = 200,
              resp_data = JArr [JObj [(''.id'', JStr ''*1''), (''name'', JStr ''alice'')],
                                JObj [(''.id'', JStr ''*2''), (''name'', JStr ''queue-alice'')]] \<rparr>
      else if req_username rq = ''strict'' then Inl ''Request failed with status code 400''
      else Inr \<lparr> resp_status = 200, resp_data = JObj [(''ret'', JStr ''*3'')] \<rparr>)"

text \<open>Thirty days of 24 hours, in milliseconds: the calendar of a zone without daylight saving time.\<close>

definition thirty_days :: int where
  "thirty_days = 30 * 24 * 60 * 60 * 1000"

definition demo_env :: env where
  "demo_env =
     \<lparr> net = demo_net,
       db_fault = (\<lambda>n. None),
       random_hex = (\<lambda>k n. replicate (2 * n) (CHR ''a'')),
       thirty_days_later = (\<lambda>t. t + thirty_days),
       new_site_id = (\<lambda>rows. Suc (length rows)),
       mirror_update = (\<lambda>updates siteId username rows. Inl ''syntax error in UPDATE'') \<rparr>"

definition demo_site :: "nat \<Rightarrow> string \<Rightarrow> string \<Rightarrow> string \<Rightarrow> site_row" where
  "demo_site i type user status =
     \<lparr> s_id = i, s_site_name = ''branch'', s_location = ''city'', s_site_type = type,
       s_router_ip = ''10.0.0.'' @ show_nat i, s_router_port = None, s_router_user = user,
       s_router_pass = ''secret'', s_api_key = ''SITE-KEY'', s_bandwidth = None,
       s_max_users = None, s_parent_site_id = None, s_status = status,
       s_last_heartbeat = None, s_created_at = 0 \<rparr>"

definition demo_state :: "site_row list \<Rightarrow> state" where
  "demo_state rows =
     \<lparr> sites = rows, remote_users = [], site_api_logs = [], site_management_tokens = [],
       sites_cache = [], events = [], calls = [], queries = 0, draws = 0 \<rparr>"

text \<open>Three remote sites, the second one unreachable, and a local one.\<close>

definition demo_sites :: "site_row list" where
  "demo_sites =
     [demo_site 1 ''remote'' ''admin'' ''active'',
      demo_site 2 ''remote'' ''down'' ''active'',
      demo_site 3 ''remote'' ''strict'' ''offline'',
      demo_site 4 ''local'' ''admin'' ''online'']"

definition demo_request :: site_data where
  "demo_request =
     \<lparr> siteName = ''branch'', location = ''city'', siteType = ''remote'',
       routerIP = ''10.0.0.1'', routerPort = Some 8728, routerUser = ''admin'',
       routerPass = ''secret'', apiKey = Some ''SITE-KEY'', bandwidth = None,
       maxUsers = None, parentSiteId = None \<rparr>"

definition demo_manager :: mikrotik where
  "demo_manager =
     \<lparr> mk_baseURL = ''http://192.168.88.1:8728/rest'', mk_user = ''admin'', mk_pass = ''secret'',
       mk_timeout = 5000, cache_users = JNull, cache_queues = JNull, cache_aps = JNull,
       cache_lastUpdate = 0, mk_calls = [] \<rparr>"

text \<open>
  A controller whose queue listing changes: the first request is answered with a limit of
  10M for \<open>alice\<close>, every later one with 20M.
\<close>

definition changing_net :: "http_request list \<Rightarrow> http_request \<Rightarrow> error + http_response" where
  "changing_net history rq =
     Inr \<lparr> resp_status = 200,
           resp_data = JArr [JObj [(''.id'', JStr ''*1''), (''name'', JStr ''queue-alice''),
                                   (''max-limit'', JStr (if history = [] then ''10M/10M'' else ''20M/20M''))]] \<rparr>"

definition changing_env :: env where
  "changing_env = demo_env\<lparr> net := changing_net \<rparr>"

section \<open>Predicates used in the statements\<close>

text \<open>
  In the words of the specification, a result collection holds exactly one entry per requested site-id: as many entries as
  there are site-ids in the requested set, no site-id twice, and the site-ids of the
  entries are the requested ones.
\<close>

definition one_entry_per_site_id :: "nat list \<Rightarrow> fanout_entry list \<Rightarrow> bool" where
  "one_entry_per_site_id siteIds results \<longleftrightarrow>
     length results = card (set siteIds) \<and>
     distinct (map e_siteId results) \<and>
     set (map e_siteId results) = set siteIds"


text \<open>
  The request that \<^verbatim>\<open>createRemoteUser\<close> sends for a site: the \<^verbatim>\<open>POST\<close> to the user resource
  of the site's control plane, with the site's credentials.
\<close>

definition create_request_of :: "site_row \<Rightarrow> http_request \<Rightarrow> bool" where
  "create_request_of site rq \<longleftrightarrow>
     req_method rq = ''POST'' \<and>
     req_url rq = site_base_url site @ ''/ip/hotspot/user'' \<and>
     req_username rq = s_router_user site \<and>
     req_password rq = s_router_pass site"

text \<open>What tells the control plane of one site from that of another: address and credentials.\<close>

definition control_plane_of :: "site_row \<Rightarrow> string \<times> string \<times> string" where
  "control_plane_of site = (site_base_url site, s_router_user site, s_router_pass site)"

text \<open>
  A request is sent for one of the sites \<open>ids\<close> when it is the create request of the first
  row that the lookup of one of these ids finds.
\<close>

definition sent_for :: "site_row list \<Rightarrow> nat list \<Rightarrow> http_request \<Rightarrow> bool" where
  "sent_for rows ids rq \<longleftrightarrow>
     (\<exists>i \<in> set ids. case filter (\<lambda>s. s_id s = i) rows of
                        [] \<Rightarrow> False
                      | site # others \<Rightarrow> create_request_of site rq)"

section \<open>Frame properties of the per-site operations\<close>

text \<open>Unfolding sets for evaluating the model on the test doubles.\<close>

lemmas demo_defs = demo_env_def demo_net_def demo_state_def demo_sites_def demo_site_def
lemmas js_defs = obj_get_def js_or_def obj_spread_def
lemmas api_defs = js_defs callSiteAPI_def db_query_def http_call_def logSiteAPICall_def site_base_url_def Let_def

text \<open>
  A control-plane call writes the audit trail only: it leaves the site table and the
  mirror table as they are.
\<close>


lemma callSiteAPI_frame:
  "sites (snd (callSiteAPI env now st i ep m d)) = sites st \<and>
   remote_users (snd (callSiteAPI env now st i ep m d)) = remote_users st"
  by (auto simp: callSiteAPI_def db_query_def http_call_def logSiteAPICall_def
           split: prod.splits option.splits list.splits sum.splits)

lemma callSiteAPI_sites: "callSiteAPI env now st i ep m d = (r, st') \<Longrightarrow> sites st' = sites st"
  using callSiteAPI_frame [of env now st i ep m d] by simp

lemma callSiteAPI_remote_users:
  "callSiteAPI env now st i ep m d = (r, st') \<Longrightarrow> remote_users st' = remote_users st"
  using callSiteAPI_frame [of env now st i ep m d] by simp

lemma createRemoteUser_sites:
  "createRemoteUser env now st i u p opts = (r, st') \<Longrightarrow> sites st' = sites st"
  by (auto simp: createRemoteUser_def db_query_def Let_def
           split: prod.splits option.splits sum.splits dest: callSiteAPI_sites)

lemma createRemoteUser_failure_mirror:
  "createRemoteUser env now st i u p opts = (Inl e, st') \<Longrightarrow> remote_users st' = remote_users st"
  by (auto simp: createRemoteUser_def db_query_def Let_def
           split: prod.splits option.splits sum.splits dest: callSiteAPI_remote_users)

lemma updateRemoteQueueBandwidth_sites:
  "updateRemoteQueueBandwidth env now st i u bw = (r, st') \<Longrightarrow> sites st' = sites st"
  by (auto simp: updateRemoteQueueBandwidth_def
           split: prod.splits option.splits sum.splits if_splits dest!: callSiteAPI_sites)

lemma updateRemoteQueueBandwidth_mirror:
  "updateRemoteQueueBandwidth env now st i u bw = (r, st') \<Longrightarrow> remote_users st' = remote_users st"
  by (auto simp: updateRemoteQueueBandwidth_def
           split: prod.splits option.splits sum.splits if_splits dest!: callSiteAPI_remote_users)

lemma createUser_loop_acc:
  "createUser_loop env now u p opts ids acc st =
     (acc @ fst (createUser_loop env now u p opts ids [] st),
      snd (createUser_loop env now u p opts ids [] st))"
proof (induction ids arbitrary: acc st)
  case Nil
  show ?case by simp
next
  case (Cons i ids)
  obtain r st1 where step: "createRemoteUser env now st i u p opts = (r, st1)"
    by (cases "createRemoteUser env now st i u p opts")
  show ?case
    using Cons.IH [of "acc @ [create_entry i r]" st1] Cons.IH [of "[create_entry i r]" st1] step
    by simp
qed

lemma createUser_loop_append:
  "createUser_loop env now u p opts (xs @ ys) acc st =
     (let (rs, st1) = createUser_loop env now u p opts xs acc st
      in createUser_loop env now u p opts ys rs st1)"
  by (induction xs arbitrary: acc st) (auto split: prod.splits)

lemma createUser_loop_ids:
  "map e_siteId (fst (createUser_loop env now u p opts ids acc st)) = map e_siteId acc @ ids"
proof (induction ids arbitrary: acc st)
  case Nil
  show ?case by simp
next
  case (Cons i ids)
  obtain r st1 where step: "createRemoteUser env now st i u p opts = (r, st1)"
    by (cases "createRemoteUser env now st i u p opts")
  have "e_siteId (create_entry i r) = i"
    by (cases r) (simp_all add: create_entry_def)
  then show ?case
    using Cons.IH [of "acc @ [create_entry i r]" st1] step by simp
qed

lemma updateBandwidth_loop_acc:
  "updateBandwidth_loop env now u bw ids acc st =
     (acc @ fst (updateBandwidth_loop env now u bw ids [] st),
      snd (updateBandwidth_loop env now u bw ids [] st))"
proof (induction ids arbitrary: acc st)
  case Nil
  show ?case by simp
next
  case (Cons i ids)
  obtain r st1 where step: "updateRemoteQueueBandwidth env now st i u bw = (r, st1)"
    by (cases "updateRemoteQueueBandwidth env now st i u bw")
  show ?case
    using Cons.IH [of "acc @ [bandwidth_entry i r]" st1] Cons.IH [of "[bandwidth_entry i r]" st1] step
    by simp
qed

lemma updateBandwidth_loop_append:
  "updateBandwidth_loop env now u bw (xs @ ys) acc st =
     (let (rs, st1) = updateBandwidth_loop env now u bw xs acc st
      in updateBandwidth_loop env now u bw ys rs st1)"
  by (induction xs arbitrary: acc st) (auto split: prod.splits)

lemma updateBandwidth_loop_ids:
  "map e_siteId (fst (updateBandwidth_loop env now u bw ids acc st)) = map e_siteId acc @ ids"
proof (induction ids arbitrary: acc st)
  case Nil
  show ?case by simp
next
  case (Cons i ids)
  obtain r st1 where step: "updateRemoteQueueBandwidth env now st i u bw = (r, st1)"
    by (cases "updateRemoteQueueBandwidth env now st i u bw")
  have "e_siteId (bandwidth_entry i r) = i"
    by (cases r) (simp_all add: bandwidth_entry_def)
  then show ?case
    using Cons.IH [of "acc @ [bandwidth_entry i r]" st1] step by simp
qed

text \<open>The loops do not depend on the accumulator, and split at any site.\<close>


lemma createUser_fanout_cut:
  assumes "createRemoteUser env now (snd (createUserAcrossMultipleSites env now st u p before opts)) s u p opts = (r, st2)"
  shows "createUserAcrossMultipleSites env now st u p (before @ s # after) opts =
           (\<lparr> cr_username = u,
              cr_results = cr_results (fst (createUserAcrossMultipleSites env now st u p before opts))
                           @ [create_entry s r]
                           @ cr_results (fst (createUserAcrossMultipleSites env now st2 u p after opts)) \<rparr>,
            snd (createUserAcrossMultipleSites env now st2 u p after opts))"
proof -
  obtain rs1 st1 where a: "createUser_loop env now u p opts before [] st = (rs1, st1)"
    by (cases "createUser_loop env now u p opts before [] st")
  obtain rs2 st3 where b: "createUser_loop env now u p opts after [] st2 = (rs2, st3)"
    by (cases "createUser_loop env now u p opts after [] st2")
  from assms a have step: "createRemoteUser env now st1 s u p opts = (r, st2)"
    by (simp add: createUserAcrossMultipleSites_def)
  have "createUser_loop env now u p opts (before @ s # after) [] st =
          createUser_loop env now u p opts after (rs1 @ [create_entry s r]) st2"
    using a step by (simp add: createUser_loop_append)
  also have "\<dots> = ((rs1 @ [create_entry s r]) @ rs2, st3)"
    using createUser_loop_acc [of env now u p opts after "rs1 @ [create_entry s r]" st2] b by simp
  finally show ?thesis
    using a b by (simp add: createUserAcrossMultipleSites_def)
qed

lemma updateBandwidth_fanout_cut:
  assumes "updateRemoteQueueBandwidth env now (snd (updateBandwidthAcrossMultipleSites env now st u bw before)) s u bw = (r, st2)"
  shows "updateBandwidthAcrossMultipleSites env now st u bw (before @ s # after) =
           (\<lparr> br_username = u, br_bandwidth = bw,
              br_results = br_results (fst (updateBandwidthAcrossMultipleSites env now st u bw before))
                           @ [bandwidth_entry s r]
                           @ br_results (fst (updateBandwidthAcrossMultipleSites env now st2 u bw after)) \<rparr>,
            snd (updateBandwidthAcrossMultipleSites env now st2 u bw after))"
proof -
  obtain rs1 st1 where a: "updateBandwidth_loop env now u bw before [] st = (rs1, st1)"
    by (cases "updateBandwidth_loop env now u bw before [] st")
  obtain rs2 st3 where b: "updateBandwidth_loop env now u bw after [] st2 = (rs2, st3)"
    by (cases "updateBandwidth_loop env now u bw after [] st2")
  from assms a have step: "updateRemoteQueueBandwidth env now st1 s u bw = (r, st2)"
    by (simp add: updateBandwidthAcrossMultipleSites_def)
  have "updateBandwidth_loop env now u bw (before @ s # after) [] st =
          updateBandwidth_loop env now u bw after (rs1 @ [bandwidth_entry s r]) st2"
    using a step by (simp add: updateBandwidth_loop_append)
  also have "\<dots> = ((rs1 @ [bandwidth_entry s r]) @ rs2, st3)"
    using updateBandwidth_loop_acc [of env now u bw after "rs1 @ [bandwidth_entry s r]" st2] b by simp
  finally show ?thesis
    using a b by (simp add: updateBandwidthAcrossMultipleSites_def)
qed

section \<open>Fan-out: partial failure\<close>

text \<open>
  C1: a failure of the per-site operation on one site never aborts a fan-out. When the
  operation fails on site \<open>s\<close> with message \<open>msg\<close>, after the sites \<open>before\<close> have been
  processed, the fan-out over \<open>before @ s # after\<close> returns the entries of \<open>before\<close>,
  then the failure entry of \<open>s\<close> carrying \<open>msg\<close>, then the entries of a fan-out over
  \<open>after\<close> run from the state the failed attempt left; and that state has the same site
  table and mirror table as before the attempt. This holds for both fan-outs.
\<close>

theorem fanout_survives_site_failure:
  "(createUserAcrossMultipleSites env now st u p before opts = (rep1, st1) \<longrightarrow>
    createRemoteUser env now st1 s u p opts = (Inl msg, st2) \<longrightarrow>
    createUserAcrossMultipleSites env now st2 u p after opts = (rep2, st3) \<longrightarrow>
      createUserAcrossMultipleSites env now st u p (before @ s # after) opts =
        (\<lparr> cr_username = u,
           cr_results = cr_results rep1
             @ [\<lparr> e_siteId = s, e_success = False, e_result = None, e_error = Some msg \<rparr>]
             @ cr_results rep2 \<rparr>, st3)
      \<and> sites st2 = sites st1 \<and> remote_users st2 = remote_users st1)
   \<and>
   (updateBandwidthAcrossMultipleSites env now st u bw before = (brep1, bst1) \<longrightarrow>
    updateRemoteQueueBandwidth env now bst1 s u bw = (Inl bmsg, bst2) \<longrightarrow>
    updateBandwidthAcrossMultipleSites env now bst2 u bw after = (brep2, bst3) \<longrightarrow>
      updateBandwidthAcrossMultipleSites env now st u bw (before @ s # after) =
        (\<lparr> br_username = u, br_bandwidth = bw,
           br_results = br_results brep1
             @ [\<lparr> e_siteId = s, e_success = False, e_result = None, e_error = Some bmsg \<rparr>]
             @ br_results brep2 \<rparr>, bst3)
      \<and> sites bst2 = sites bst1 \<and> remote_users bst2 = remote_users bst1)"
proof (intro conjI impI)
  assume a: "createUserAcrossMultipleSites env now st u p before opts = (rep1, st1)"
    and b: "createRemoteUser env now st1 s u p opts = (Inl msg, st2)"
    and c: "createUserAcrossMultipleSites env now st2 u p after opts = (rep2, st3)"
  from b a have "createRemoteUser env now (snd (createUserAcrossMultipleSites env now st u p before opts)) s u p opts = (Inl msg, st2)"
    by simp
  from createUser_fanout_cut [OF this, of after] a c
  show "createUserAcrossMultipleSites env now st u p (before @ s # after) opts =
        (\<lparr> cr_username = u,
           cr_results = cr_results rep1
             @ [\<lparr> e_siteId = s, e_success = False, e_result = None, e_error = Some msg \<rparr>]
             @ cr_results rep2 \<rparr>, st3)"
    by (simp add: create_entry_def)
  from b show "sites st2 = sites st1" by (rule createRemoteUser_sites)
  from b show "remote_users st2 = remote_users st1" by (rule createRemoteUser_failure_mirror)
next
  assume a: "updateBandwidthAcrossMultipleSites env now st u bw before = (brep1, bst1)"
    and b: "updateRemoteQueueBandwidth env now bst1 s u bw = (Inl bmsg, bst2)"
    and c: "updateBandwidthAcrossMultipleSites env now bst2 u bw after = (brep2, bst3)"
  from b a have "updateRemoteQueueBandwidth env now (snd (updateBandwidthAcrossMultipleSites env now st u bw before)) s u bw = (Inl bmsg, bst2)"
    by simp
  from updateBandwidth_fanout_cut [OF this, of after] a c
  show "updateBandwidthAcrossMultipleSites env now st u bw (before @ s # after) =
        (\<lparr> br_username = u, br_bandwidth = bw,
           br_results = br_results brep1
             @ [\<lparr> e_siteId = s, e_success = False, e_result = None, e_error = Some bmsg \<rparr>]
             @ br_results brep2 \<rparr>, bst3)"
    by (simp add: bandwidth_entry_def)
  from b show "sites bst2 = sites bst1" by (rule updateRemoteQueueBandwidth_sites)
  from b show "remote_users bst2 = remote_users bst1" by (rule updateRemoteQueueBandwidth_mirror)
qed

theorem fanout_survives_site_failure_witness:
  "fst (createRemoteUser demo_env 0 (demo_state demo_sites) 2 ''alice'' ''pw'' [])
     = Inl ''timeout of 10000ms exceeded''
   \<and> cr_results (fst (createUserAcrossMultipleSites demo_env 0 (demo_state demo_sites) ''alice'' ''pw'' [2, 1] []))
     = [\<lparr> e_siteId = 2, e_success = False, e_result = None, e_error = Some ''timeout of 10000ms exceeded'' \<rparr>,
        \<lparr> e_siteId = 1, e_success = True,
          e_result = Some (JObj [(''success'', JBool True), (''user'', JObj [(''ret'', JStr ''*3'')])]),
          e_error = None \<rparr>]
   \<and> fst (updateRemoteQueueBandwidth demo_env 0 (demo_state demo_sites) 2 ''alice'' 10)
     = Inl ''timeout of 10000ms exceeded''
   \<and> br_results (fst (updateBandwidthAcrossMultipleSites demo_env 0 (demo_state demo_sites) ''alice'' 10 [2, 1]))
     = [\<lparr> e_siteId = 2, e_success = False, e_result = None, e_error = Some ''timeout of 10000ms exceeded'' \<rparr>,
        \<lparr> e_siteId = 1, e_success = True, e_result = None, e_error = None \<rparr>]"
proof -
  let ?S = "demo_state demo_sites"
  let ?X = "createRemoteUser demo_env 0 ?S 2 ''alice'' ''pw'' []"
  let ?Y = "createUserAcrossMultipleSites demo_env 0 (snd ?X) ''alice'' ''pw'' [1] []"
  let ?BX = "updateRemoteQueueBandwidth demo_env 0 ?S 2 ''alice'' 10"
  let ?BY = "updateBandwidthAcrossMultipleSites demo_env 0 (snd ?BX) ''alice'' 10 [1]"
  have f: "fst ?X = Inl ''timeout of 10000ms exceeded''"
    by (simp add: createRemoteUser_def api_defs demo_defs)
  have h1: "createUserAcrossMultipleSites demo_env 0 ?S ''alice'' ''pw'' [] []
              = (\<lparr> cr_username = ''alice'', cr_results = [] \<rparr>, ?S)"
    by (simp add: createUserAcrossMultipleSites_def)
  have h2: "?X = (Inl ''timeout of 10000ms exceeded'', snd ?X)"
    using f by (cases ?X) simp
  have h3: "?Y = (fst ?Y, snd ?Y)" by simp
  have y: "cr_results (fst ?Y) =
             [\<lparr> e_siteId = 1, e_success = True,
                e_result = Some (JObj [(''success'', JBool True), (''user'', JObj [(''ret'', JStr ''*3'')])]),
                e_error = None \<rparr>]"
    by (simp add: createUserAcrossMultipleSites_def createRemoteUser_def create_entry_def
                  api_defs demo_defs)
  have bf: "fst ?BX = Inl ''timeout of 10000ms exceeded''"
    by (simp add: updateRemoteQueueBandwidth_def api_defs demo_defs)
  have b1: "updateBandwidthAcrossMultipleSites demo_env 0 ?S ''alice'' 10 []
              = (\<lparr> br_username = ''alice'', br_bandwidth = 10, br_results = [] \<rparr>, ?S)"
    by (simp add: updateBandwidthAcrossMultipleSites_def)
  have b2: "?BX = (Inl ''timeout of 10000ms exceeded'', snd ?BX)"
    using bf by (cases ?BX) simp
  have b3: "?BY = (fst ?BY, snd ?BY)" by simp
  have z: "br_results (fst ?BY) =
             [\<lparr> e_siteId = 1, e_success = True, e_result = None, e_error = None \<rparr>]"
    by (simp add: updateBandwidthAcrossMultipleSites_def updateRemoteQueueBandwidth_def bandwidth_entry_def
                  api_defs demo_defs)
  note inst = fanout_survives_site_failure
     [where env = demo_env and now = 0 and st = ?S and u = "''alice''" and p = "''pw''"
        and opts = "[]" and before = "[]" and s = 2 and after = "[1]" and bw = 10]
  from inst [THEN conjunct1, rule_format, OF h1 h2 h3] y
  have c: "cr_results (fst (createUserAcrossMultipleSites demo_env 0 ?S ''alice'' ''pw'' [2, 1] [])) =
        [\<lparr> e_siteId = 2, e_success = False, e_result = None, e_error = Some ''timeout of 10000ms exceeded'' \<rparr>,
         \<lparr> e_siteId = 1, e_success = True,
           e_result = Some (JObj [(''success'', JBool True), (''user'', JObj [(''ret'', JStr ''*3'')])]),
           e_error = None \<rparr>]"
    by simp
  from inst [THEN conjunct2, rule_format, OF b1 b2 b3] z
  have d: "br_results (fst (updateBandwidthAcrossMultipleSites demo_env 0 ?S ''alice'' 10 [2, 1])) =
        [\<lparr> e_siteId = 2, e_success = False, e_result = None, e_error = Some ''timeout of 10000ms exceeded'' \<rparr>,
         \<lparr> e_siteId = 1, e_success = True, e_result = None, e_error = None \<rparr>]"
    by simp
  from f c bf d show ?thesis by simp
qed

section \<open>Fan-out: the result collection\<close>

lemma createUser_fanout_ids:
  "map e_siteId (cr_results (fst (createUserAcrossMultipleSites env now st u p siteIds opts))) = siteIds"
  using createUser_loop_ids [of env now u p opts siteIds "[]" st]
  by (auto simp: createUserAcrossMultipleSites_def split: prod.splits)

lemma updateBandwidth_fanout_ids:
  "map e_siteId (br_results (fst (updateBandwidthAcrossMultipleSites env now st u bw siteIds))) = siteIds"
  using updateBandwidth_loop_ids [of env now u bw siteIds "[]" st]
  by (auto simp: updateBandwidthAcrossMultipleSites_def split: prod.splits)

lemma one_entry_per_site_id_iff:
  "map e_siteId results = siteIds \<Longrightarrow> one_entry_per_site_id siteIds results \<longleftrightarrow> distinct siteIds"
proof -
  assume m: "map e_siteId results = siteIds"
  then have l: "length results = length siteIds" by (metis length_map)
  show ?thesis
    using m l card_distinct [of siteIds] distinct_card [of siteIds]
    by (auto simp: one_entry_per_site_id_def)
qed

text \<open>
  C2, as amended: the result collection of a fan-out holds exactly one entry per element
  of the requested list, in the order of the list, whichever per-site calls fail; so it
  is as long as the list. When the requested site-ids are pairwise distinct, that is
  exactly one entry per requested site-id.
\<close>

theorem fanout_one_entry_per_requested_element:
  "map e_siteId (cr_results (fst (createUserAcrossMultipleSites env now st u p siteIds opts))) = siteIds
   \<and> map e_siteId (br_results (fst (updateBandwidthAcrossMultipleSites env now st u bw siteIds))) = siteIds
   \<and> (distinct siteIds \<longrightarrow>
        one_entry_per_site_id siteIds
          (cr_results (fst (createUserAcrossMultipleSites env now st u p siteIds opts)))
        \<and> one_entry_per_site_id siteIds
          (br_results (fst (updateBandwidthAcrossMultipleSites env now st u bw siteIds))))"
  using one_entry_per_site_id_iff [OF createUser_fanout_ids [of env now st u p siteIds opts]]
        one_entry_per_site_id_iff [OF updateBandwidth_fanout_ids [of env now st u bw siteIds]]
  by (simp add: createUser_fanout_ids updateBandwidth_fanout_ids)

theorem fanout_one_entry_per_requested_element_witness:
  "distinct [1, 2, 3, 4, 9 :: nat]
   \<and> one_entry_per_site_id [1, 2, 3, 4, 9]
        (cr_results (fst (createUserAcrossMultipleSites demo_env 0 (demo_state demo_sites) ''alice'' ''pw'' [1, 2, 3, 4, 9] [])))
   \<and> one_entry_per_site_id [1, 2, 3, 4, 9]
        (br_results (fst (updateBandwidthAcrossMultipleSites demo_env 0 (demo_state demo_sites) ''alice'' 10 [1, 2, 3, 4, 9])))"
  using fanout_one_entry_per_requested_element
          [of demo_env 0 "demo_state demo_sites" "''alice''" "''pw''" "[1, 2, 3, 4, 9]" "[]" 10]
  by simp

text \<open>
  A site-id requested twice gets two entries: the claim as stated, for every list of
  requested site-ids, fails on the list \<open>[1, 1]\<close>.
\<close>

theorem fanout_duplicate_request_counterexample:
  "map e_siteId (cr_results (fst (createUserAcrossMultipleSites demo_env 0 (demo_state demo_sites) ''alice'' ''pw'' [1, 1] [])))
     = [1, 1]
   \<and> card (set [1, 1 :: nat]) = 1
   \<and> \<not> one_entry_per_site_id [1, 1]
        (cr_results (fst (createUserAcrossMultipleSites demo_env 0 (demo_state demo_sites) ''alice'' ''pw'' [1, 1] [])))"
proof -
  have "cr_results (fst (createUserAcrossMultipleSites demo_env 0 (demo_state demo_sites) ''alice'' ''pw'' [1, 1] []))
        = [\<lparr> e_siteId = 1, e_success = True,
             e_result = Some (JObj [(''success'', JBool True), (''user'', JObj [(''ret'', JStr ''*3'')])]),
             e_error = None \<rparr>,
           \<lparr> e_siteId = 1, e_success = True,
             e_result = Some (JObj [(''success'', JBool True), (''user'', JObj [(''ret'', JStr ''*3'')])]),
             e_error = None \<rparr>]"
    by (simp add: createUserAcrossMultipleSites_def createRemoteUser_def create_entry_def
                  remote_user_payload_def api_defs demo_defs)
  then show ?thesis
    by (simp add: one_entry_per_site_id_def)
qed

section \<open>Deleting a user of a remote site\<close>

lemma find_named_absent:
  "\<forall>u \<in> set users. \<exists>n. js_prop u ''name'' = Inr n \<and> n \<noteq> JStr username
     \<Longrightarrow> find_named users username = Inr JUndefined"
  by (induction users) auto

text \<open>
  C3, as amended: when the listing of the site's users succeeds and no listed user has
  the given name, \<^verbatim>\<open>deleteRemoteUser\<close> fails with the error
  \<^verbatim>\<open>User not found on remote site: <username>\<close>. It stops right after the listing call:
  no \<^verbatim>\<open>DELETE\<close> request is sent and the mirror table is left as it was.
\<close>

theorem deleteRemoteUser_absent_user_fails:
  assumes "callSiteAPI env now st siteId ''/ip/hotspot/user'' ''GET'' JNull = (Inr (JArr users), st1)"
    and "\<forall>u \<in> set users. \<exists>n. js_prop u ''name'' = Inr n \<and> n \<noteq> JStr username"
  shows "deleteRemoteUser env now st siteId username =
           (Inl (''User not found on remote site: '' @ username), st1)
         \<and> remote_users st1 = remote_users st"
  using assms callSiteAPI_remote_users [OF assms(1)]
  by (simp add: deleteRemoteUser_def find_named_absent)

lemma demo_listing:
  "callSiteAPI demo_env 0 (demo_state demo_sites) 1 ''/ip/hotspot/user'' ''GET'' JNull =
     (Inr (JArr [JObj [(''.id'', JStr ''*1''), (''name'', JStr ''alice'')],
                 JObj [(''.id'', JStr ''*2''), (''name'', JStr ''queue-alice'')]]),
      snd (callSiteAPI demo_env 0 (demo_state demo_sites) 1 ''/ip/hotspot/user'' ''GET'' JNull))"
proof -
  have "fst (callSiteAPI demo_env 0 (demo_state demo_sites) 1 ''/ip/hotspot/user'' ''GET'' JNull) =
          Inr (JArr [JObj [(''.id'', JStr ''*1''), (''name'', JStr ''alice'')],
                     JObj [(''.id'', JStr ''*2''), (''name'', JStr ''queue-alice'')]])"
    by (simp add: api_defs demo_defs)
  then show ?thesis
    by (cases "callSiteAPI demo_env 0 (demo_state demo_sites) 1 ''/ip/hotspot/user'' ''GET'' JNull") simp
qed

theorem deleteRemoteUser_absent_user_fails_witness:
  "fst (deleteRemoteUser demo_env 0 (demo_state demo_sites) 1 ''carol'') =
     Inl ''User not found on remote site: carol''
   \<and> remote_users (snd (deleteRemoteUser demo_env 0 (demo_state demo_sites) 1 ''carol'')) = []"
proof -
  have absent: "\<forall>u \<in> set [JObj [(''.id'', JStr ''*1''), (''name'', JStr ''alice'')],
                            JObj [(''.id'', JStr ''*2''), (''name'', JStr ''queue-alice'')]].
                  \<exists>n. js_prop u ''name'' = Inr n \<and> n \<noteq> JStr ''carol''"
    by (simp add: obj_get_def)
  have "remote_users (demo_state demo_sites) = []"
    by (simp add: demo_state_def)
  with deleteRemoteUser_absent_user_fails [OF demo_listing absent]
  show ?thesis by simp
qed

text \<open>
  The claim as stated (deleting an absent user returns success) fails: \<open>bob\<close> is not in
  the listing of site 1, and deleting him there throws.
\<close>

theorem deleteRemoteUser_absent_counterexample:
  "find_named [JObj [(''.id'', JStr ''*1''), (''name'', JStr ''alice'')],
               JObj [(''.id'', JStr ''*2''), (''name'', JStr ''queue-alice'')]] ''bob'' = Inr JUndefined
   \<and> fst (callSiteAPI demo_env 0 (demo_state demo_sites) 1 ''/ip/hotspot/user'' ''GET'' JNull) =
       Inr (JArr [JObj [(''.id'', JStr ''*1''), (''name'', JStr ''alice'')],
                  JObj [(''.id'', JStr ''*2''), (''name'', JStr ''queue-alice'')]])
   \<and> fst (deleteRemoteUser demo_env 0 (demo_state demo_sites) 1 ''bob'') =
       Inl ''User not found on remote site: bob''"
  by (simp add: deleteRemoteUser_def api_defs demo_defs)

section \<open>The mirror is written after the remote call\<close>

lemma deleteRemoteUser_failure_mirror:
  "deleteRemoteUser env now st i u = (Inl e, st') \<Longrightarrow> remote_users st' = remote_users st"
  by (auto simp: deleteRemoteUser_def db_query_def
           split: prod.splits option.splits sum.splits if_splits dest!: callSiteAPI_remote_users)

lemma createRemoteUser_call_failure:
  assumes "callSiteAPI env now st i ''/ip/hotspot/user'' ''POST'' (remote_user_payload u p opts) = (Inl e, st1)"
  shows "createRemoteUser env now st i u p opts = (Inl e, st1)"
  using assms by (simp add: createRemoteUser_def)

lemma deleteRemoteUser_call_failure:
  assumes "callSiteAPI env now st i ''/ip/hotspot/user'' ''GET'' JNull = (Inr users, st1)"
    and "js_find_named ''users'' users u = Inr user" and "truthy user"
    and "js_prop user ''.id'' = Inr uid"
    and "callSiteAPI env now st1 i (''/ip/hotspot/user/'' @ js_to_string uid) ''DELETE'' JNull = (Inl e, st2)"
  shows "deleteRemoteUser env now st i u = (Inl e, st2)"
  using assms by (simp add: deleteRemoteUser_def)

text \<open>
  C5: the mirror table is written only after the remote call has succeeded.
  \<^item> When the \<^verbatim>\<open>POST\<close> call of \<^verbatim>\<open>createRemoteUser\<close> fails, the operation fails with the
    same error and the mirror is unchanged.
  \<^item> When the \<^verbatim>\<open>DELETE\<close> call of \<^verbatim>\<open>deleteRemoteUser\<close> fails, the operation fails with
    the same error and the mirror is unchanged.
  \<^item> Whatever makes either operation fail, the mirror is unchanged.
  \<^item> The remote calls themselves never touch the mirror, so nothing is written before
    the controller has answered.
\<close>

theorem mirror_written_only_after_remote_success:
  "(callSiteAPI env now st siteId ''/ip/hotspot/user'' ''POST'' (remote_user_payload username password options)
      = (Inl e, st1) \<longrightarrow>
      createRemoteUser env now st siteId username password options = (Inl e, st1)
      \<and> remote_users st1 = remote_users st)
   \<and> (callSiteAPI env now st siteId ''/ip/hotspot/user'' ''GET'' JNull = (Inr users, st2) \<longrightarrow>
        js_find_named ''users'' users username = Inr user \<longrightarrow> truthy user \<longrightarrow>
        js_prop user ''.id'' = Inr uid \<longrightarrow>
        callSiteAPI env now st2 siteId (''/ip/hotspot/user/'' @ js_to_string uid) ''DELETE'' JNull
          = (Inl e2, st3) \<longrightarrow>
        deleteRemoteUser env now st siteId username = (Inl e2, st3)
        \<and> remote_users st3 = remote_users st)
   \<and> (createRemoteUser env now st siteId username password options = (Inl e3, st4) \<longrightarrow>
        remote_users st4 = remote_users st)
   \<and> (deleteRemoteUser env now st siteId username = (Inl e4, st5) \<longrightarrow>
        remote_users st5 = remote_users st)
   \<and> remote_users (snd (callSiteAPI env now st siteId endpoint method data)) = remote_users st"
proof (intro conjI impI)
  assume a: "callSiteAPI env now st siteId ''/ip/hotspot/user'' ''POST''
               (remote_user_payload username password options) = (Inl e, st1)"
  show "createRemoteUser env now st siteId username password options = (Inl e, st1)"
    using a by (rule createRemoteUser_call_failure)
  show "remote_users st1 = remote_users st"
    using a by (rule callSiteAPI_remote_users)
next
  assume a: "callSiteAPI env now st siteId ''/ip/hotspot/user'' ''GET'' JNull = (Inr users, st2)"
    and b: "js_find_named ''users'' users username = Inr user" and c: "truthy user"
    and d: "js_prop user ''.id'' = Inr uid"
    and f: "callSiteAPI env now st2 siteId (''/ip/hotspot/user/'' @ js_to_string uid) ''DELETE'' JNull
              = (Inl e2, st3)"
  show "deleteRemoteUser env now st siteId username = (Inl e2, st3)"
    using a b c d f by (rule deleteRemoteUser_call_failure)
  show "remote_users st3 = remote_users st"
    using callSiteAPI_remote_users [OF a] callSiteAPI_remote_users [OF f] by simp
next
  assume "createRemoteUser env now st siteId username password options = (Inl e3, st4)"
  then show "remote_users st4 = remote_users st"
    by (rule createRemoteUser_failure_mirror)
next
  assume "deleteRemoteUser env now st siteId username = (Inl e4, st5)"
  then show "remote_users st5 = remote_users st"
    by (rule deleteRemoteUser_failure_mirror)
next
  show "remote_users (snd (callSiteAPI env now st siteId endpoint method data)) = remote_users st"
    by (simp add: callSiteAPI_frame)
qed

text \<open>
  On the test doubles: the controller of site 2 times out on the \<^verbatim>\<open>POST\<close>, the controller
  of site 3 lists \<open>alice\<close> and then refuses the \<^verbatim>\<open>DELETE\<close>; the mirror, which holds a row
  for \<open>alice\<close> on site 3, is the same afterwards.
\<close>

theorem mirror_written_only_after_remote_success_witness:
  "fst (createRemoteUser demo_env 0 (demo_state demo_sites) 2 ''alice'' ''pw'' [])
      = Inl ''timeout of 10000ms exceeded''
   \<and> remote_users (snd (createRemoteUser demo_env 0 (demo_state demo_sites) 2 ''alice'' ''pw'' [])) = []
   \<and> fst (deleteRemoteUser demo_env 0
            ((demo_state demo_sites)\<lparr> remote_users :=
                [\<lparr> ru_site_id = 3, ru_username = ''alice'', ru_password = ''pw'',
                   ru_bandwidth_limit = JNum 0, ru_created_at = 0 \<rparr>] \<rparr>) 3 ''alice'')
      = Inl ''Request failed with status code 400''
   \<and> remote_users (snd (deleteRemoteUser demo_env 0
            ((demo_state demo_sites)\<lparr> remote_users :=
                [\<lparr> ru_site_id = 3, ru_username = ''alice'', ru_password = ''pw'',
                   ru_bandwidth_limit = JNum 0, ru_created_at = 0 \<rparr>] \<rparr>) 3 ''alice''))
      = [\<lparr> ru_site_id = 3, ru_username = ''alice'', ru_password = ''pw'',
           ru_bandwidth_limit = JNum 0, ru_created_at = 0 \<rparr>]"
proof -
  let ?S = "demo_state demo_sites"
  let ?T = "?S\<lparr> remote_users :=
                [\<lparr> ru_site_id = 3, ru_username = ''alice'', ru_password = ''pw'',
                   ru_bandwidth_limit = JNum 0, ru_created_at = 0 \<rparr>] \<rparr>"
  let ?C = "createRemoteUser demo_env 0 ?S 2 ''alice'' ''pw'' []"
  let ?D = "deleteRemoteUser demo_env 0 ?T 3 ''alice''"
  have c: "fst ?C = Inl ''timeout of 10000ms exceeded''"
    by (simp add: createRemoteUser_def api_defs demo_defs)
  then have c': "?C = (Inl ''timeout of 10000ms exceeded'', snd ?C)"
    by (cases ?C) simp
  have d: "fst ?D = Inl ''Request failed with status code 400''"
    by (simp add: deleteRemoteUser_def api_defs demo_defs)
  then have d': "?D = (Inl ''Request failed with status code 400'', snd ?D)"
    by (cases ?D) simp
  have s: "remote_users ?S = []" by (simp add: demo_state_def)
  have t: "remote_users ?T = [\<lparr> ru_site_id = 3, ru_username = ''alice'', ru_password = ''pw'',
                   ru_bandwidth_limit = JNum 0, ru_created_at = 0 \<rparr>]" by simp
  from mirror_written_only_after_remote_success
         [where env = demo_env and now = 0 and st = ?S and siteId = 2 and username = "''alice''"
            and password = "''pw''" and options = "[]",
          THEN conjunct2, THEN conjunct2, THEN conjunct1, rule_format, OF c'] s
  have m1: "remote_users (snd ?C) = []" by simp
  from mirror_written_only_after_remote_success
         [where env = demo_env and now = 0 and st = ?T and siteId = 3 and username = "''alice''",
          THEN conjunct2, THEN conjunct2, THEN conjunct2, THEN conjunct1, rule_format, OF d'] t
  have m2: "remote_users (snd ?D) = [\<lparr> ru_site_id = 3, ru_username = ''alice'', ru_password = ''pw'',
                   ru_bandwidth_limit = JNum 0, ru_created_at = 0 \<rparr>]" by simp
  from c m1 d m2 show ?thesis by simp
qed

section \<open>Local sites\<close>
















section \<open>Management tokens\<close>

lemma verifyManagementToken_answered:
  "db_fault env (queries st) = None \<Longrightarrow>
   fst (verifyManagementToken env now st siteId token) \<longleftrightarrow>
     (\<exists>t \<in> set (site_management_tokens st).
        tk_site_id t = siteId \<and> tk_token t = token \<and> now < tk_expires_at t)"
  by (auto simp: verifyManagementToken_def db_query_def filter_empty_conv)

text \<open>A token that was issued verifies for its site until its expiry, thirty calendar days later.\<close>

lemma issued_token_verifies:
  assumes "generateManagementToken env now st siteId permissions = (Inr tok, st1)"
    and "db_fault env (queries st1) = None"
  shows "fst (verifyManagementToken env now' st1 siteId (it_token tok)) \<or> \<not> now' < thirty_days_later env now"
proof -
  from assms(1) have "\<lparr> tk_site_id = siteId, tk_token = it_token tok, tk_permissions = permissions,
                        tk_expires_at = thirty_days_later env now, tk_created_at = now \<rparr>
                      \<in> set (site_management_tokens st1)"
    by (auto simp: generateManagementToken_def db_query_def Let_def split: option.splits)
  then show ?thesis
    using verifyManagementToken_answered [OF assms(2), of now' siteId "it_token tok"] by force
qed

text \<open>
  C6: \<^verbatim>\<open>verifyManagementToken\<close> always returns a boolean. When the query is answered, the
  result is true exactly when a stored token record has the given site, the given secret
  and an expiry strictly after the current time; when the query is rejected, the error
  is caught and the result is false. The tables are not changed.
\<close>

theorem verifyManagementToken_true_iff_valid_record:
  "(db_fault env (queries st) = None \<longrightarrow>
      fst (verifyManagementToken env now st siteId token) =
        (\<exists>t \<in> set (site_management_tokens st).
           tk_site_id t = siteId \<and> tk_token t = token \<and> now < tk_expires_at t))
   \<and> (db_fault env (queries st) \<noteq> None \<longrightarrow> fst (verifyManagementToken env now st siteId token) = False)
   \<and> snd (verifyManagementToken env now st siteId token) = st\<lparr> queries := Suc (queries st) \<rparr>"
proof (intro conjI impI)
  assume "db_fault env (queries st) = None"
  then show "fst (verifyManagementToken env now st siteId token) =
        (\<exists>t \<in> set (site_management_tokens st).
           tk_site_id t = siteId \<and> tk_token t = token \<and> now < tk_expires_at t)"
    by (rule verifyManagementToken_answered)
next
  assume "db_fault env (queries st) \<noteq> None"
  then show "fst (verifyManagementToken env now st siteId token) = False"
    by (auto simp: verifyManagementToken_def db_query_def)
next
  show "snd (verifyManagementToken env now st siteId token) = st\<lparr> queries := Suc (queries st) \<rparr>"
    by (simp add: verifyManagementToken_def db_query_def split: option.splits)
qed

text \<open>
  On the test doubles, with one token \<open>abc\<close> of site 1 that expires at time 5000: it
  verifies at time 4999 and no longer at time 5000, not for site 2, and no other secret
  verifies.
\<close>

theorem verifyManagementToken_true_iff_valid_record_witness:
  "db_fault demo_env (queries ((demo_state demo_sites)\<lparr> site_management_tokens :=
        [\<lparr> tk_site_id = 1, tk_token = ''abc'', tk_permissions = [''read''],
           tk_expires_at = 5000, tk_created_at = 0 \<rparr>] \<rparr>)) = None
   \<and> fst (verifyManagementToken demo_env 4999 ((demo_state demo_sites)\<lparr> site_management_tokens :=
        [\<lparr> tk_site_id = 1, tk_token = ''abc'', tk_permissions = [''read''],
           tk_expires_at = 5000, tk_created_at = 0 \<rparr>] \<rparr>) 1 ''abc'')
   \<and> \<not> fst (verifyManagementToken demo_env 5000 ((demo_state demo_sites)\<lparr> site_management_tokens :=
        [\<lparr> tk_site_id = 1, tk_token = ''abc'', tk_permissions = [''read''],
           tk_expires_at = 5000, tk_created_at = 0 \<rparr>] \<rparr>) 1 ''abc'')
   \<and> \<not> fst (verifyManagementToken demo_env 4999 ((demo_state demo_sites)\<lparr> site_management_tokens :=
        [\<lparr> tk_site_id = 1, tk_token = ''abc'', tk_permissions = [''read''],
           tk_expires_at = 5000, tk_created_at = 0 \<rparr>] \<rparr>) 2 ''abc'')
   \<and> \<not> fst (verifyManagementToken demo_env 4999 ((demo_state demo_sites)\<lparr> site_management_tokens :=
        [\<lparr> tk_site_id = 1, tk_token = ''abc'', tk_permissions = [''read''],
           tk_expires_at = 5000, tk_created_at = 0 \<rparr>] \<rparr>) 1 ''abd'')"
proof -
  let ?T = "(demo_state demo_sites)\<lparr> site_management_tokens :=
        [\<lparr> tk_site_id = 1, tk_token = ''abc'', tk_permissions = [''read''],
           tk_expires_at = 5000, tk_created_at = 0 \<rparr>] \<rparr>"
  have ok: "db_fault demo_env (queries ?T) = None"
    by (simp add: demo_env_def)
  note inst = verifyManagementToken_true_iff_valid_record
                [where env = demo_env and st = ?T, THEN conjunct1, rule_format, OF ok]
  from ok inst [of 4999 1 "''abc''"] inst [of 5000 1 "''abc''"]
       inst [of 4999 2 "''abc''"] inst [of 4999 1 "''abd''"]
  show ?thesis by simp
qed

section \<open>Site registration\<close>

lemma generateSiteAPIKey_frame:
  "queries (snd (generateSiteAPIKey env st)) = queries st \<and> sites (snd (generateSiteAPIKey env st)) = sites st"
  by (simp add: generateSiteAPIKey_def)

text \<open>
  C7, as amended: \<^verbatim>\<open>registerSite\<close> makes no check for an endpoint that is registered
  already. Whatever the site table holds, and so also when an active site with the same
  router address, port, user and password is in it, a registration whose \<^verbatim>\<open>INSERT\<close> the
  database accepts succeeds: it appends one row with the requested endpoint and
  credentials and the status \<^verbatim>\<open>active\<close>, and returns the new row's id.
\<close>

theorem registerSite_has_no_duplicate_check:
  assumes "db_fault env (queries st) = None"
  shows "\<exists>site row.
           fst (registerSite env now st siteData) = Inr site
           \<and> rs_id site = new_site_id env (sites st)
           \<and> sites (snd (registerSite env now st siteData)) = sites st @ [row]
           \<and> s_id row = new_site_id env (sites st)
           \<and> s_router_ip row = routerIP siteData
           \<and> s_router_port row = routerPort siteData
           \<and> s_router_user row = routerUser siteData
           \<and> s_router_pass row = routerPass siteData
           \<and> s_status row = ''active''"
proof -
  obtain key st1 where k: "(case apiKey siteData of
               Some k \<Rightarrow> if k \<noteq> [] then (k, st) else generateSiteAPIKey env st
             | None \<Rightarrow> generateSiteAPIKey env st) = (key, st1)"
    by (cases "(case apiKey siteData of
               Some k \<Rightarrow> if k \<noteq> [] then (k, st) else generateSiteAPIKey env st
             | None \<Rightarrow> generateSiteAPIKey env st)")
  have same: "queries st1 = queries st \<and> sites st1 = sites st"
    using k generateSiteAPIKey_frame [of env st]
    by (auto split: option.splits if_splits)
  show ?thesis
    using assms k same
    by (simp add: registerSite_def db_query_def Let_def)
qed

text \<open>On the test doubles: the same request registered twice.\<close>

theorem registerSite_has_no_duplicate_check_witness:
  "db_fault demo_env (queries (snd (registerSite demo_env 0 (demo_state []) demo_request))) = None
   \<and> map s_id (sites (snd (registerSite demo_env 1
        (snd (registerSite demo_env 0 (demo_state []) demo_request)) demo_request))) = [1, 2]"
proof -
  let ?S1 = "snd (registerSite demo_env 0 (demo_state []) demo_request)"
  have ok: "db_fault demo_env (queries ?S1) = None"
    by (simp add: demo_env_def)
  have ok0: "db_fault demo_env (queries (demo_state [])) = None"
    by (simp add: demo_env_def)
  have one: "map s_id (sites ?S1) = [1]"
    using registerSite_has_no_duplicate_check [OF ok0, of 0 demo_request]
    by (auto simp: demo_env_def demo_state_def)
  from registerSite_has_no_duplicate_check [OF ok, of 1 demo_request]
  obtain row where "sites (snd (registerSite demo_env 1 ?S1 demo_request)) = sites ?S1 @ [row]"
    and "s_id row = new_site_id demo_env (sites ?S1)"
    by blast
  moreover have "length (sites ?S1) = 1"
    using one by (metis length_map length_Cons list.size(3) One_nat_def)
  ultimately show ?thesis
    using ok one by (simp add: demo_env_def)
qed

text \<open>
  The claim as stated fails: registering the request of an active site a second time does
  not end in a \<^verbatim>\<open>DuplicateEndpoint\<close> error, it creates site 2 with the endpoint and the
  credentials of site 1.
\<close>

theorem registerSite_duplicate_endpoint_counterexample:
  "fst (registerSite demo_env 0 (demo_state []) demo_request) =
     Inr \<lparr> rs_id = 1, rs_site_name = ''branch'', rs_api_key = ''SITE-KEY'', rs_site_type = ''remote'' \<rparr>
   \<and> fst (registerSite demo_env 1 (snd (registerSite demo_env 0 (demo_state []) demo_request)) demo_request) =
     Inr \<lparr> rs_id = 2, rs_site_name = ''branch'', rs_api_key = ''SITE-KEY'', rs_site_type = ''remote'' \<rparr>
   \<and> map s_router_ip (sites (snd (registerSite demo_env 1
        (snd (registerSite demo_env 0 (demo_state []) demo_request)) demo_request)))
      = [''10.0.0.1'', ''10.0.0.1'']
   \<and> map s_router_port (sites (snd (registerSite demo_env 1
        (snd (registerSite demo_env 0 (demo_state []) demo_request)) demo_request)))
      = [Some 8728, Some 8728]
   \<and> map s_router_user (sites (snd (registerSite demo_env 1
        (snd (registerSite demo_env 0 (demo_state []) demo_request)) demo_request)))
      = [''admin'', ''admin'']
   \<and> map s_router_pass (sites (snd (registerSite demo_env 1
        (snd (registerSite demo_env 0 (demo_state []) demo_request)) demo_request)))
      = [''secret'', ''secret'']
   \<and> map s_status (sites (snd (registerSite demo_env 1
        (snd (registerSite demo_env 0 (demo_state []) demo_request)) demo_request)))
      = [''active'', ''active'']"
  by (simp add: registerSite_def db_query_def Let_def demo_env_def demo_state_def demo_request_def)

section \<open>Heartbeat\<close>

lemma testSiteConnection_events:
  "events (snd (testSiteConnection env now st siteId)) = events st"
  by (auto simp: testSiteConnection_def db_query_def http_call_def
           split: option.splits list.splits prod.splits sum.splits)

text \<open>
  C9, as amended: the heartbeat emits one \<^verbatim>\<open>site:heartbeat\<close> event per tick, whether or
  not the probe changed the site's status. A tick whose status update the database
  accepts appends exactly one event, carrying the site-id and the outcome of the probe;
  a tick whose update is rejected appends none.
\<close>

theorem heartbeat_emits_on_every_tick:
  "(heartbeat_tick env now st siteId = (None, st') \<longrightarrow>
      events st' = events st @ [SiteHeartbeat siteId (fst (testSiteConnection env now st siteId))])
   \<and> (heartbeat_tick env now st siteId = (Some e, st') \<longrightarrow> events st' = events st)"
  using testSiteConnection_events [of env now st siteId]
  by (auto simp: heartbeat_tick_def db_query_def Let_def split: prod.splits option.splits)

text \<open>
  The claim as stated fails: site 4 is online before the tick and online after it, and
  the tick emits an event. Likewise the second tick of site 1 finds it online, leaves it
  online, and emits the second event.
\<close>

theorem heartbeat_unchanged_status_counterexample:
  "map s_status (sites (demo_state demo_sites)) = [''active'', ''active'', ''offline'', ''online'']
   \<and> map s_status (sites (snd (heartbeat_tick demo_env 60000 (demo_state demo_sites) 4)))
        = [''active'', ''active'', ''offline'', ''online'']
   \<and> events (demo_state demo_sites) = []
   \<and> events (snd (heartbeat_tick demo_env 60000 (demo_state demo_sites) 4))
        = [SiteHeartbeat 4 \<lparr> connected = True, conn_identity = JUndefined, conn_type = Some ''local'',
                              conn_error = None, conn_time = None \<rparr>]
   \<and> map s_status (sites (heartbeat_run demo_env (demo_state demo_sites) 1 [60000]))
        = [''online'', ''active'', ''offline'', ''online'']
   \<and> map s_status (sites (heartbeat_run demo_env (demo_state demo_sites) 1 [60000, 120000]))
        = [''online'', ''active'', ''offline'', ''online'']
   \<and> length (events (heartbeat_run demo_env (demo_state demo_sites) 1 [60000])) = 1
   \<and> length (events (heartbeat_run demo_env (demo_state demo_sites) 1 [60000, 120000])) = 2"
  by (simp add: heartbeat_tick_def testSiteConnection_def db_query_def http_call_def identity_name_def
                obj_get_def Let_def demo_defs)

theorem heartbeat_emits_on_every_tick_witness:
  "fst (heartbeat_tick demo_env 60000 (demo_state demo_sites) 4) = None
   \<and> events (snd (heartbeat_tick demo_env 60000 (demo_state demo_sites) 4))
        = [SiteHeartbeat 4 (fst (testSiteConnection demo_env 60000 (demo_state demo_sites) 4))]"
proof -
  let ?H = "heartbeat_tick demo_env 60000 (demo_state demo_sites) 4"
  have n: "fst ?H = None"
    by (simp add: heartbeat_tick_def testSiteConnection_def db_query_def Let_def demo_defs)
  then have "?H = (None, snd ?H)"
    by (cases ?H) simp
  from heartbeat_emits_on_every_tick [THEN conjunct1, rule_format, OF this] n
  show ?thesis by (simp add: demo_state_def)
qed

section \<open>Sync over all sites\<close>

lemma sent_for_iff:
  "sent_for rows ids rq \<longleftrightarrow>
     (\<exists>i \<in> set ids. \<exists>site others. filter (\<lambda>s. s_id s = i) rows = site # others \<and> create_request_of site rq)"
proof -
  have "(case xs of [] \<Rightarrow> False | site # others \<Rightarrow> create_request_of site rq) \<longleftrightarrow>
          (\<exists>site others. xs = site # others \<and> create_request_of site rq)" for xs
    by (cases xs) simp_all
  then show ?thesis
    by (simp add: sent_for_def)
qed

lemma createRemoteUser_calls:
  "createRemoteUser env now st i u p opts = (r, st') \<Longrightarrow>
   \<exists>new. calls st' = calls st @ new \<and> (\<forall>rq \<in> set new. sent_for (sites st) [i] rq)"
  by (auto simp: createRemoteUser_def callSiteAPI_def db_query_def http_call_def logSiteAPICall_def
                 sent_for_iff create_request_of_def Let_def
           split: option.splits list.splits if_splits prod.splits sum.splits)

lemma sent_for_mono: "sent_for rows ids rq \<Longrightarrow> set ids \<subseteq> set ids' \<Longrightarrow> sent_for rows ids' rq"
  by (auto simp: sent_for_iff)

lemma createUser_loop_calls:
  "createUser_loop env now u p opts ids acc st = (rs, st') \<Longrightarrow>
   sites st' = sites st \<and>
   (\<exists>new. calls st' = calls st @ new \<and> (\<forall>rq \<in> set new. sent_for (sites st) ids rq))"
proof (induction ids arbitrary: acc st)
  case Nil
  then show ?case by simp
next
  case (Cons i ids)
  obtain r st1 where step: "createRemoteUser env now st i u p opts = (r, st1)"
    by (cases "createRemoteUser env now st i u p opts")
  from createRemoteUser_calls [OF step] obtain new1
    where n1: "calls st1 = calls st @ new1" "\<forall>rq \<in> set new1. sent_for (sites st) [i] rq"
    by blast
  have same: "sites st1 = sites st"
    using step by (rule createRemoteUser_sites)
  from Cons.prems step
  have rest: "createUser_loop env now u p opts ids (acc @ [create_entry i r]) st1 = (rs, st')"
    by simp
  from Cons.IH [OF rest] same obtain new2
    where n2: "sites st' = sites st" "calls st' = calls st1 @ new2"
              "\<forall>rq \<in> set new2. sent_for (sites st) ids rq"
    by auto
  have "calls st' = calls st @ (new1 @ new2)"
    using n1(1) n2(2) by simp
  moreover have "\<forall>rq \<in> set (new1 @ new2). sent_for (sites st) (i # ids) rq"
    using n1(2) n2(3) by (auto intro: sent_for_mono)
  ultimately show ?case
    using n2(1) by blast
qed

lemma unique_row:
  assumes "distinct (map s_id rows)" and "a \<in> set rows"
    and "filter (\<lambda>s. s_id s = s_id a) rows = site # others"
  shows "site = a"
proof -
  have "site \<in> set (filter (\<lambda>s. s_id s = s_id a) rows)"
    using assms(3) by simp
  then have "site \<in> set rows" and "s_id site = s_id a"
    by simp_all
  with assms(1,2) show ?thesis
    by (meson distinct_map inj_onD)
qed

text \<open>With unique site-ids, a request sent for a selected site is the create request of a selected row.\<close>

lemma sent_for_selected:
  assumes "distinct (map s_id rows)"
    and "sent_for rows (map s_id (filter sel rows)) rq"
  shows "\<exists>s \<in> set rows. sel s \<and> create_request_of s rq"
proof -
  from assms(2) obtain a site others
    where a: "a \<in> set rows" "sel a"
      and f: "filter (\<lambda>s. s_id s = s_id a) rows = site # others"
      and ad: "create_request_of site rq"
    by (auto simp: sent_for_iff)
  from unique_row [OF assms(1) a(1) f] a ad show ?thesis
    by auto
qed

lemma same_create_request:
  "create_request_of s rq \<Longrightarrow> create_request_of o' rq \<Longrightarrow> control_plane_of s = control_plane_of o'"
  by (simp add: create_request_of_def control_plane_of_def)

lemma sync_runs_fanout:
  assumes "db_fault env (queries st) = None"
  shows "\<exists>rs st' new.
           syncUserAcrossAllSites env now st username password options
             = (Inr \<lparr> cr_username = username, cr_results = rs \<rparr>, st')
           \<and> map e_siteId rs = map s_id (filter (\<lambda>s. s_status s = ''active'') (sites st))
           \<and> calls st' = calls st @ new
           \<and> (\<forall>rq \<in> set new. sent_for (sites st) (map s_id (filter (\<lambda>s. s_status s = ''active'') (sites st))) rq)"
proof -
  let ?st1 = "st\<lparr> queries := Suc (queries st) \<rparr>"
  let ?ids = "map s_id (filter (\<lambda>s. s_status s = ''active'') (sites st))"
  obtain rs st' where loop: "createUser_loop env now username password options ?ids [] ?st1 = (rs, st')"
    by (cases "createUser_loop env now username password options ?ids [] ?st1")
  have run: "syncUserAcrossAllSites env now st username password options
               = (Inr \<lparr> cr_username = username, cr_results = rs \<rparr>, st')"
    using assms loop
    by (simp add: syncUserAcrossAllSites_def db_query_def createUserAcrossMultipleSites_def)
  have ids: "map e_siteId rs = ?ids"
    using createUser_loop_ids [of env now username password options ?ids "[]" ?st1] loop by simp
  from createUser_loop_calls [OF loop] obtain new
    where "calls st' = calls st @ new" "\<forall>rq \<in> set new. sent_for (sites st) ?ids rq"
    by auto
  with run ids show ?thesis by blast
qed

text \<open>
  C4, as amended: \<^verbatim>\<open>syncUserAcrossAllSites\<close>, when its selection of sites is answered, never
  targets an offline site, and a site it leaves out is omitted from the result: no
  \<^verbatim>\<open>SiteOffline\<close> failure is recorded for it. Every entry of the result belongs to a
  registered site that is not offline, and every site still in the status that
  registration gave it (\<^verbatim>\<open>active\<close>) has an entry. With site-ids that are unique in the
  table, no site has two entries, an offline site has none, and every request sent is the
  create request of a site that has an entry and is not offline; so no request is the
  create request of an offline site, unless a site that is not offline has the same
  address and credentials.
\<close>

theorem sync_omits_offline_sites:
  assumes "db_fault env (queries st) = None"
  shows "\<exists>rep st' new.
           syncUserAcrossAllSites env now st username password options = (Inr rep, st')
           \<and> calls st' = calls st @ new
           \<and> (\<forall>e \<in> set (cr_results rep).
                 \<exists>s \<in> set (sites st). s_id s = e_siteId e \<and> s_status s \<noteq> ''offline'')
           \<and> (\<forall>s \<in> set (sites st).
                 s_status s = ''active'' \<longrightarrow> s_id s \<in> set (map e_siteId (cr_results rep)))
           \<and> (distinct (map s_id (sites st)) \<longrightarrow>
                distinct (map e_siteId (cr_results rep))
                \<and> (\<forall>s \<in> set (sites st).
                      s_status s = ''offline'' \<longrightarrow> s_id s \<notin> set (map e_siteId (cr_results rep)))
                \<and> (\<forall>rq \<in> set new.
                      \<exists>s \<in> set (sites st).
                        s_id s \<in> set (map e_siteId (cr_results rep)) \<and> s_status s \<noteq> ''offline''
                        \<and> create_request_of s rq)
                \<and> (\<forall>s \<in> set (sites st).
                      s_status s = ''offline'' \<longrightarrow>
                      (\<forall>t \<in> set (sites st).
                         s_status t \<noteq> ''offline'' \<longrightarrow> control_plane_of t \<noteq> control_plane_of s) \<longrightarrow>
                      (\<forall>rq \<in> set new. \<not> create_request_of s rq)))"
proof -
  let ?sel = "\<lambda>s. s_status s = ''active''"
  let ?ids = "map s_id (filter ?sel (sites st))"
  from sync_runs_fanout [OF assms, of now username password options] obtain rs st' new
    where run: "syncUserAcrossAllSites env now st username password options
                  = (Inr \<lparr> cr_username = username, cr_results = rs \<rparr>, st')"
      and ids: "map e_siteId rs = ?ids"
      and new: "calls st' = calls st @ new"
      and sent: "\<forall>rq \<in> set new. sent_for (sites st) ?ids rq"
    by blast
  have sel_not_offline: "s_status s \<noteq> ''offline''" if "?sel s" for s
    using that by simp
  have entries: "\<forall>e \<in> set rs. \<exists>s \<in> set (sites st). s_id s = e_siteId e \<and> s_status s \<noteq> ''offline''"
  proof
    fix e assume "e \<in> set rs"
    then have "e_siteId e \<in> set (map e_siteId rs)" by simp
    then have "e_siteId e \<in> set ?ids" unfolding ids .
    then obtain a where "a \<in> set (sites st)" "?sel a" "s_id a = e_siteId e"
      by auto
    then show "\<exists>s \<in> set (sites st). s_id s = e_siteId e \<and> s_status s \<noteq> ''offline''"
      using sel_not_offline by blast
  qed
  have fresh: "\<forall>s \<in> set (sites st). s_status s = ''active'' \<longrightarrow> s_id s \<in> set (map e_siteId rs)"
    unfolding ids by auto
  have rest: "distinct (map e_siteId rs)
      \<and> (\<forall>s \<in> set (sites st). s_status s = ''offline'' \<longrightarrow> s_id s \<notin> set (map e_siteId rs))
      \<and> (\<forall>rq \<in> set new. \<exists>s \<in> set (sites st).
             s_id s \<in> set (map e_siteId rs) \<and> s_status s \<noteq> ''offline'' \<and> create_request_of s rq)
      \<and> (\<forall>s \<in> set (sites st). s_status s = ''offline'' \<longrightarrow>
            (\<forall>t \<in> set (sites st). s_status t \<noteq> ''offline'' \<longrightarrow> control_plane_of t \<noteq> control_plane_of s) \<longrightarrow>
            (\<forall>rq \<in> set new. \<not> create_request_of s rq))"
    if d: "distinct (map s_id (sites st))"
  proof (intro conjI)
    show "distinct (map e_siteId rs)"
      unfolding ids using d by (rule distinct_map_filter)
    show off: "\<forall>s \<in> set (sites st). s_status s = ''offline'' \<longrightarrow> s_id s \<notin> set (map e_siteId rs)"
    proof (intro ballI impI notI)
      fix s
      assume s: "s \<in> set (sites st)" "s_status s = ''offline''"
        and m: "s_id s \<in> set (map e_siteId rs)"
      from m have "s_id s \<in> set ?ids" unfolding ids .
      then obtain a where a: "a \<in> set (sites st)" "?sel a" "s_id a = s_id s"
        by auto
      from d a(1) s(1) a(3) have "a = s"
        by (meson distinct_map inj_onD)
      with a(2) s(2) show False by simp
    qed
    show req: "\<forall>rq \<in> set new. \<exists>s \<in> set (sites st).
             s_id s \<in> set (map e_siteId rs) \<and> s_status s \<noteq> ''offline'' \<and> create_request_of s rq"
    proof
      fix rq assume "rq \<in> set new"
      with sent have "sent_for (sites st) ?ids rq" by blast
      from sent_for_selected [OF d this] obtain a
        where a: "a \<in> set (sites st)" "?sel a" "create_request_of a rq"
        by blast
      have "s_id a \<in> set (map e_siteId rs)"
        unfolding ids using a(1,2) by auto
      with a sel_not_offline
      show "\<exists>s \<in> set (sites st).
             s_id s \<in> set (map e_siteId rs) \<and> s_status s \<noteq> ''offline'' \<and> create_request_of s rq"
        by blast
    qed
    show "\<forall>s \<in> set (sites st). s_status s = ''offline'' \<longrightarrow>
            (\<forall>t \<in> set (sites st). s_status t \<noteq> ''offline'' \<longrightarrow> control_plane_of t \<noteq> control_plane_of s) \<longrightarrow>
            (\<forall>rq \<in> set new. \<not> create_request_of s rq)"
    proof (intro ballI impI notI)
      fix s rq
      assume apart: "\<forall>t \<in> set (sites st). s_status t \<noteq> ''offline'' \<longrightarrow> control_plane_of t \<noteq> control_plane_of s"
        and rq: "rq \<in> set new" and mine: "create_request_of s rq"
      from req rq obtain t where t: "t \<in> set (sites st)" "s_status t \<noteq> ''offline''" "create_request_of t rq"
        by blast
      from same_create_request [OF t(3) mine] apart t(1,2) show False
        by blast
    qed
  qed
  show ?thesis
    using run new entries fresh rest
    by (intro exI [of _ "\<lparr> cr_username = username, cr_results = rs \<rparr>"] exI [of _ st'] exI [of _ new]) simp
qed


text \<open>
  On the test doubles, with the first three sites of the table: sites 1 and 2 are active,
  site 3 is offline.
\<close>

theorem sync_omits_offline_sites_witness:
  "db_fault demo_env (queries (demo_state (take 3 demo_sites))) = None
   \<and> distinct (map s_id (sites (demo_state (take 3 demo_sites))))
   \<and> (\<exists>rep st'. syncUserAcrossAllSites demo_env 0 (demo_state (take 3 demo_sites)) ''alice'' ''pw'' []
                   = (Inr rep, st')
                 \<and> 1 \<in> set (map e_siteId (cr_results rep))
                 \<and> 2 \<in> set (map e_siteId (cr_results rep))
                 \<and> 3 \<notin> set (map e_siteId (cr_results rep))
                 \<and> distinct (map e_siteId (cr_results rep)))"
proof -
  let ?S = "demo_state (take 3 demo_sites)"
  let ?a = "demo_site 1 ''remote'' ''admin'' ''active''"
  let ?b = "demo_site 2 ''remote'' ''down'' ''active''"
  let ?c = "demo_site 3 ''remote'' ''strict'' ''offline''"
  have ok: "db_fault demo_env (queries ?S) = None"
    by (simp add: demo_env_def)
  have d: "distinct (map s_id (sites ?S))"
    by (simp add: demo_defs)
  have rows: "?a \<in> set (sites ?S)" "?b \<in> set (sites ?S)" "?c \<in> set (sites ?S)"
    by (simp_all add: demo_state_def demo_sites_def)
  have st: "s_status ?a = ''active''" "s_status ?b = ''active''" "s_status ?c = ''offline''"
           "s_id ?a = 1" "s_id ?b = 2" "s_id ?c = 3"
    by (simp_all add: demo_site_def)
  from sync_omits_offline_sites [OF ok, of 0 "''alice''" "''pw''" "[]"] obtain rep st'
    where run: "syncUserAcrossAllSites demo_env 0 ?S ''alice'' ''pw'' [] = (Inr rep, st')"
      and fresh: "\<forall>s \<in> set (sites ?S). s_status s = ''active'' \<longrightarrow> s_id s \<in> set (map e_siteId (cr_results rep))"
      and uniq: "distinct (map s_id (sites ?S)) \<longrightarrow>
                   distinct (map e_siteId (cr_results rep))
                   \<and> (\<forall>s \<in> set (sites ?S). s_status s = ''offline'' \<longrightarrow> s_id s \<notin> set (map e_siteId (cr_results rep)))"
    by blast
  from fresh rows(1) st(1,4) have one: "1 \<in> set (map e_siteId (cr_results rep))"
    by metis
  from fresh rows(2) st(2,5) have two: "2 \<in> set (map e_siteId (cr_results rep))"
    by metis
  from uniq d rows(3) st(3,6) have three: "3 \<notin> set (map e_siteId (cr_results rep))"
    by metis
  from uniq d have "distinct (map e_siteId (cr_results rep))"
    by blast
  with ok d run one two three show ?thesis
    by blast
qed

text \<open>
  The claim as stated fails: of three registered sites, one of them offline, the result
  holds two entries, and none for the offline site 3.
\<close>

theorem sync_offline_site_counterexample:
  "map s_id (sites (demo_state (take 3 demo_sites))) = [1, 2, 3]
   \<and> map s_status (sites (demo_state (take 3 demo_sites))) = [''active'', ''active'', ''offline'']
   \<and> fst (syncUserAcrossAllSites demo_env 0 (demo_state (take 3 demo_sites)) ''alice'' ''pw'' []) =
       Inr \<lparr> cr_username = ''alice'',
             cr_results =
               [\<lparr> e_siteId = 1, e_success = True,
                  e_result = Some (JObj [(''success'', JBool True), (''user'', JObj [(''ret'', JStr ''*3'')])]),
                  e_error = None \<rparr>,
                \<lparr> e_siteId = 2, e_success = False, e_result = None,
                  e_error = Some ''timeout of 10000ms exceeded'' \<rparr>] \<rparr>"
  by (simp add: syncUserAcrossAllSites_def createUserAcrossMultipleSites_def createRemoteUser_def
                create_entry_def remote_user_payload_def api_defs demo_defs)

section \<open>The cache of the device client\<close>

text \<open>
  The list of users is served from the cache only while it is younger than the TTL,
  counted from its own refresh: \<^verbatim>\<open>lastUpdate\<close> is written together with \<^verbatim>\<open>cache.users\<close>,
  and by nothing else but \<^verbatim>\<open>clearCache\<close>.
\<close>

lemma getHotspotUsers_from_cache:
  "mk_calls (snd (getHotspotUsers env now m)) = mk_calls m \<Longrightarrow>
   now - cache_lastUpdate m < cache_ttl \<and> fst (getHotspotUsers env now m) = cache_users m"
  by (auto simp: getHotspotUsers_def mk_http_def Let_def split: sum.splits if_splits)

text \<open>A successful write empties the cache entry of its resource, and the next listing asks the controller.\<close>

lemma createHotspotUser_invalidates:
  "createHotspotUser env m username password options = (Inr r, m1) \<Longrightarrow> cache_users m1 = JNull"
  by (auto simp: createHotspotUser_def mk_http_def Let_def split: sum.splits)

lemma updateHotspotUser_invalidates:
  "updateHotspotUser env now m username updates = (Inr r, m1) \<Longrightarrow> cache_users m1 = JNull"
  by (auto simp: updateHotspotUser_def mk_http_def Let_def split: sum.splits prod.splits if_splits)

lemma deleteHotspotUser_invalidates:
  "deleteHotspotUser env now m username = (Inr r, m1) \<Longrightarrow> cache_users m1 = JNull"
  by (auto simp: deleteHotspotUser_def mk_http_def Let_def split: sum.splits prod.splits if_splits)

lemma createQueue_invalidates:
  "createQueue env m username options = (Inr r, m1) \<Longrightarrow> cache_queues m1 = JNull"
  by (auto simp: createQueue_def mk_http_def Let_def split: sum.splits)

lemma updateQueueBandwidth_invalidates:
  "updateQueueBandwidth env now m username bw = (Inr r, m1) \<Longrightarrow> cache_queues m1 = JNull"
  by (auto simp: updateQueueBandwidth_def mk_http_def Let_def split: sum.splits prod.splits if_splits)

lemma deleteQueue_invalidates:
  "deleteQueue env now m username = (Inr r, m1) \<Longrightarrow> cache_queues m1 = JNull"
  by (auto simp: deleteQueue_def mk_http_def Let_def split: sum.splits prod.splits if_splits)

lemma listing_after_invalidation:
  "cache_users m = JNull \<Longrightarrow> mk_calls (snd (getHotspotUsers env now m)) \<noteq> mk_calls m"
  "cache_queues m = JNull \<Longrightarrow> mk_calls (snd (getQueues env now m)) \<noteq> mk_calls m"
  by (auto simp: getHotspotUsers_def getQueues_def mk_http_def Let_def split: sum.splits)

text \<open>
  C8: the claim fails on the code for the list of queues. \<^verbatim>\<open>getQueues\<close> compares the clock
  with \<^verbatim>\<open>lastUpdate\<close> but does not write it, so the age of the queue entry is counted from
  the last refresh of the user list. The queues are fetched at time 1000000 (limit 10M);
  ten minutes later the user list is fetched; one millisecond after that, \<^verbatim>\<open>getQueues\<close>
  answers from the cache, 600001 ms old, with the limit 10M and without a request, while
  the controller would say 20M.
\<close>

theorem getQueues_serves_entry_older_than_ttl:
  "fst (getQueues changing_env 1000000 demo_manager) =
     JArr [JObj [(''.id'', JStr ''*1''), (''name'', JStr ''queue-alice''), (''max-limit'', JStr ''10M/10M'')]]
   \<and> cache_lastUpdate (snd (getQueues changing_env 1000000 demo_manager)) = 0
   \<and> cache_lastUpdate (snd (getHotspotUsers changing_env 1600000
        (snd (getQueues changing_env 1000000 demo_manager)))) = 1600000
   \<and> fst (getQueues changing_env 1600001
        (snd (getHotspotUsers changing_env 1600000 (snd (getQueues changing_env 1000000 demo_manager))))) =
     JArr [JObj [(''.id'', JStr ''*1''), (''name'', JStr ''queue-alice''), (''max-limit'', JStr ''10M/10M'')]]
   \<and> length (mk_calls (snd (getQueues changing_env 1600001
        (snd (getHotspotUsers changing_env 1600000 (snd (getQueues changing_env 1000000 demo_manager))))))) = 2
   \<and> cache_ttl < 1600001 - 1000000"
  by (simp add: getQueues_def getHotspotUsers_def mk_http_def Let_def cache_ttl_def
                changing_env_def changing_net_def demo_env_def demo_manager_def)

end
